theory Spec2Isabelle
  imports Main
begin

section \<open>Data model (models.py)\<close>

text \<open>
  A \<open>DateTime\<close> value is a reading of the clock. The handlers never compute with
  it: they store it and render it with \<open>isoformat()\<close>, which is passed to the
  handlers that build a response.
\<close>

type_synonym datetime = nat

text \<open>
  The \<open>users\<close> table. \<open>id\<close> is the primary key; \<open>username\<close> and
  \<open>email\<close> are declared \<open>unique=True\<close>. The fields are named after the
  expressions of the source (\<open>models.User.username\<close>).
\<close>

record User =
  User_id :: int
  User_username :: string
  User_email :: string
  User_hashed_password :: string
  User_created_at :: datetime

text \<open>
  The \<open>notes\<close> table. \<open>owner_id\<close> and \<open>share_id\<close> are nullable columns
  (\<open>share_id\<close> is \<open>Optional[str]\<close> in \<open>NoteResponse\<close>); \<open>share_id\<close> is
  declared \<open>unique=True\<close>, and a unique column admits any number of NULLs.
  Title, content and \<open>is_public\<close> have the types \<open>NoteResponse\<close> gives them:
  no handler writes \<open>None\<close> to them.
\<close>

record Note =
  Note_id :: int
  Note_title :: string
  Note_content :: string
  Note_owner_id :: "int option"
  Note_is_public :: bool
  Note_share_id :: "string option"
  Note_created_at :: datetime
  Note_updated_at :: datetime

text \<open>
  The store behind a \<open>Session\<close>: the rows of both tables, in storage order
  (the order in which \<open>first()\<close> and \<open>all()\<close> see them).
\<close>

record db =
  db_users :: "User list"
  db_notes :: "Note list"

definition empty_db :: db where
  "empty_db = \<lparr>db_users = [], db_notes = []\<rparr>"

text \<open>
  The constraints models.py declares and the storage engine enforces: both primary
  keys, and the three unique columns (NULL share ids do not take part).
\<close>

definition share_ids :: "db \<Rightarrow> string list" where
  "share_ids d = List.map_filter Note_share_id (db_notes d)"

definition db_ok :: "db \<Rightarrow> bool" where
  "db_ok d \<longleftrightarrow>
     distinct (map User_id (db_users d)) \<and>
     distinct (map User_username (db_users d)) \<and>
     distinct (map User_email (db_users d)) \<and>
     distinct (map Note_id (db_notes d)) \<and>
     distinct (share_ids d)"

section \<open>Request and response bodies (the pydantic models of main.py)\<close>

record UserCreate =
  UserCreate_username :: string
  UserCreate_email :: string
  UserCreate_password :: string

record NoteCreate =
  NoteCreate_title :: string
  NoteCreate_content :: string

text \<open>Every field of \<open>NoteUpdate\<close> defaults to \<open>None\<close>: absent and null coincide.\<close>

record NoteUpdate =
  NoteUpdate_title :: "string option"
  NoteUpdate_content :: "string option"
  NoteUpdate_is_public :: "bool option"

record NoteResponse =
  NoteResponse_id :: int
  NoteResponse_title :: string
  NoteResponse_content :: string
  NoteResponse_is_public :: bool
  NoteResponse_share_id :: "string option"
  NoteResponse_created_at :: string
  NoteResponse_updated_at :: string

text \<open>The dictionary \<open>get_shared_note\<close> returns.\<close>

record SharedNote =
  SharedNote_title :: string
  SharedNote_content :: string
  SharedNote_created_at :: string

text \<open>
  What leaves a handler instead of a result: an \<open>HTTPException\<close> with its status
  code and detail, or the \<open>IntegrityError\<close> that \<open>db.commit()\<close> raises when a
  uniqueness constraint rejects a row. No handler has a \<open>try\<close>, so the latter
  propagates to the framework (a 500 response).
\<close>

datatype error = HTTPException nat string | IntegrityError

section \<open>The share id generator\<close>

definition ascii_lowercase :: string where
  "ascii_lowercase = ''abcdefghijklmnopqrstuvwxyz''"

definition ascii_uppercase :: string where
  "ascii_uppercase = ''ABCDEFGHIJKLMNOPQRSTUVWXYZ''"

definition ascii_letters :: string where
  "ascii_letters = ascii_lowercase @ ascii_uppercase"

definition digits :: string where
  "digits = ''0123456789''"

text \<open>
  \<open>secrets.choice(seq)\<close> is \<open>seq[randbelow(len(seq))]\<close> on the operating
  system's random source, and raises \<open>IndexError\<close> on an empty sequence.
  \<open>randbelow(n)\<close> returns some \<open>k\<close> with \<open>0 \<le> k < n\<close>; the model reads it off
  an entropy value \<open>e\<close> supplied from outside as \<open>e mod n\<close>, so that every
  \<open>k < n\<close> is returned (at \<open>e = k\<close>) and nothing else is.
\<close>

definition randbelow :: "nat \<Rightarrow> nat \<Rightarrow> nat" where
  "randbelow n e = e mod n"

definition secrets_choice :: "'a list \<Rightarrow> nat \<Rightarrow> 'a option" where
  "secrets_choice seq e = (if seq = [] then None else Some (seq ! randbelow (length seq) e))"

text \<open>
  \<open>''.join(secrets.choice(string.ascii_letters + string.digits) for _ in range(10))\<close>:
  the \<open>i\<close>-th round of the generator consumes the entropy value \<open>rnd i\<close>. The
  alphabet is not empty, so no round raises; the \<open>None\<close> branch is never taken.
\<close>

definition generate_share_id :: "(nat \<Rightarrow> nat) \<Rightarrow> string" where
  "generate_share_id rnd =
     map (\<lambda>i. case secrets_choice (ascii_letters @ digits) (rnd i) of
                 Some c \<Rightarrow> c | None \<Rightarrow> CHR ''?'') [0..<10]"

section \<open>The store: what the Session writes at commit\<close>

text \<open>
  Modelled from the spec: the storage engine behind \<open>database.engine\<close>, which is
  not part of the sources. It is taken to enforce the declared constraints and to
  give a new row a primary key that no row of the table has; here the largest key in
  use plus one, starting at 1. Strings compare exactly.
\<close>

definition fresh_id :: "int list \<Rightarrow> int" where
  "fresh_id ids = fold max ids 0 + 1"

text \<open>
  \<open>db.add(models.User(...)); db.commit()\<close>: the INSERT is rejected with
  \<open>IntegrityError\<close> when \<open>username\<close> or \<open>email\<close> is already in the table
  (\<open>unique=True\<close>), and the transaction is rolled back. Otherwise the row is
  appended with its key and the column default \<open>created_at = utcnow()\<close>.
\<close>

definition add_user :: "string \<Rightarrow> string \<Rightarrow> string \<Rightarrow> datetime \<Rightarrow> db \<Rightarrow> error + db" where
  "add_user username email hashed_password now d =
     (if username \<in> set (map User_username (db_users d)) \<or>
         email \<in> set (map User_email (db_users d))
      then Inl IntegrityError
      else Inr (d\<lparr>db_users := db_users d @
                  [\<lparr>User_id = fresh_id (map User_id (db_users d)),
                    User_username = username,
                    User_email = email,
                    User_hashed_password = hashed_password,
                    User_created_at = now\<rparr>]\<rparr>))"

text \<open>
  \<open>db.add(models.Note(...)); db.commit(); db.refresh(db_note)\<close>: rejected when the
  share id is already in the table. Otherwise the row is appended with its key and
  the column defaults \<open>is_public = False\<close>, \<open>created_at = updated_at = utcnow()\<close>;
  the refreshed row is returned with the new store.
\<close>

definition add_note ::
  "string \<Rightarrow> string \<Rightarrow> int option \<Rightarrow> string option \<Rightarrow> datetime \<Rightarrow> db \<Rightarrow> error + Note \<times> db" where
  "add_note title content owner_id share_id now d =
     (if (case share_id of None \<Rightarrow> False | Some s \<Rightarrow> s \<in> set (share_ids d))
      then Inl IntegrityError
      else (let row = \<lparr>Note_id = fresh_id (map Note_id (db_notes d)),
                        Note_title = title,
                        Note_content = content,
                        Note_owner_id = owner_id,
                        Note_is_public = False,
                        Note_share_id = share_id,
                        Note_created_at = now,
                        Note_updated_at = now\<rparr>
            in Inr (row, d\<lparr>db_notes := db_notes d @ [row]\<rparr>)))"

text \<open>
  \<open>db.commit(); db.refresh(db_note)\<close> after attribute assignments on a loaded row
  \<open>old\<close>, whose attributes now read \<open>new\<close>. The unit of work emits an UPDATE only
  for attributes whose value differs from the loaded one; if none does, nothing is
  written. The column's \<open>onupdate=datetime.utcnow\<close> fires within an UPDATE
  statement only, so \<open>updated_at\<close> is set exactly when a row is written. The
  UPDATE addresses the row by primary key. The assigned columns carry no uniqueness
  constraint, so the commit cannot be rejected.
\<close>

definition update_row :: "Note \<Rightarrow> Note \<Rightarrow> datetime \<Rightarrow> db \<Rightarrow> Note \<times> db" where
  "update_row old new now d =
     (if new = old then (old, d)
      else (let row = new\<lparr>Note_updated_at := now\<rparr>
            in (row, d\<lparr>db_notes := map (\<lambda>r. if Note_id r = Note_id old then row else r)
                                      (db_notes d)\<rparr>)))"

text \<open>\<open>db.delete(db_note); db.commit()\<close>: the DELETE addresses the row by primary key.\<close>

definition delete_row :: "Note \<Rightarrow> db \<Rightarrow> db" where
  "delete_row old d = d\<lparr>db_notes := filter (\<lambda>r. Note_id r \<noteq> Note_id old) (db_notes d)\<rparr>"

section \<open>The request handlers (main.py)\<close>

text \<open>
  A handler takes the store and returns its result, or the error it raises, with the
  store it leaves. What FastAPI injects is an argument: \<open>current_user\<close> is the row
  \<open>auth.get_current_user\<close> resolved from the bearer token, \<open>now\<close> is the clock
  that \<open>datetime.utcnow\<close> reads, \<open>rnd\<close> is the entropy of the random source.
  The functions of the \<open>auth\<close> module, which is not part of the sources, are
  arguments too, under their own names.

  \<open>first()\<close> returns one of the rows the filter matches; the model takes the
  first in storage order. Under the constraints of the store the queries by id and by
  share id match at most one row, and \<open>register\<close> only tests whether its query
  matches any.
\<close>

definition register_query :: "UserCreate \<Rightarrow> db \<Rightarrow> User option" where
  "register_query user d =
     find (\<lambda>u. User_username u = UserCreate_username user \<or>
                User_email u = UserCreate_email user) (db_users d)"

definition register_create ::
  "(string \<Rightarrow> string) \<Rightarrow> UserCreate \<Rightarrow> datetime \<Rightarrow> db \<Rightarrow> (error + string) \<times> db" where
  "register_create get_password_hash user now d =
     (let hashed_password = get_password_hash (UserCreate_password user)
      in case add_user (UserCreate_username user) (UserCreate_email user) hashed_password now d of
           Inl e \<Rightarrow> (Inl e, d)
         | Inr d' \<Rightarrow> (Inr ''User created successfully'', d'))"

text \<open>
  \<open>register\<close> is the query of lines 59 to 61 followed by the creation of lines 67
  to 76, both on the store as the one request sees it.
\<close>

definition register ::
  "(string \<Rightarrow> string) \<Rightarrow> UserCreate \<Rightarrow> datetime \<Rightarrow> db \<Rightarrow> (error + string) \<times> db" where
  "register get_password_hash user now d =
     (case register_query user d of
        Some db_user \<Rightarrow> (Inl (HTTPException 400 ''Username or email already registered''), d)
      | None \<Rightarrow> register_create get_password_hash user now d)"

text \<open>
  The same two steps when other requests commit in between: the query reads the
  store \<open>d\<close>, the creation commits against the store \<open>d'\<close> of that later moment.
\<close>

definition register_interleaved ::
  "(string \<Rightarrow> string) \<Rightarrow> UserCreate \<Rightarrow> datetime \<Rightarrow> db \<Rightarrow> db \<Rightarrow> (error + string) \<times> db" where
  "register_interleaved get_password_hash user now d d' =
     (case register_query user d of
        Some db_user \<Rightarrow> (Inl (HTTPException 400 ''Username or email already registered''), d')
      | None \<Rightarrow> register_create get_password_hash user now d')"

definition login ::
  "(string \<Rightarrow> string \<Rightarrow> bool) \<Rightarrow> (string \<Rightarrow> string) \<Rightarrow> string \<Rightarrow> string \<Rightarrow> db
     \<Rightarrow> (error + string \<times> string) \<times> db" where
  "login verify_password create_access_token username password d =
     (case find (\<lambda>u. User_username u = username) (db_users d) of
        None \<Rightarrow> (Inl (HTTPException 401 ''Incorrect username or password''), d)
      | Some user \<Rightarrow>
          if \<not> verify_password password (User_hashed_password user)
          then (Inl (HTTPException 401 ''Incorrect username or password''), d)
          else (Inr (create_access_token (User_username user), ''bearer''), d))"

definition note_response :: "(datetime \<Rightarrow> string) \<Rightarrow> Note \<Rightarrow> NoteResponse" where
  "note_response isoformat n =
     \<lparr>NoteResponse_id = Note_id n,
      NoteResponse_title = Note_title n,
      NoteResponse_content = Note_content n,
      NoteResponse_is_public = Note_is_public n,
      NoteResponse_share_id = Note_share_id n,
      NoteResponse_created_at = isoformat (Note_created_at n),
      NoteResponse_updated_at = isoformat (Note_updated_at n)\<rparr>"

definition get_notes ::
  "(datetime \<Rightarrow> string) \<Rightarrow> User \<Rightarrow> db \<Rightarrow> (error + NoteResponse list) \<times> db" where
  "get_notes isoformat current_user d =
     (Inr (map (note_response isoformat)
            (filter (\<lambda>n. Note_owner_id n = Some (User_id current_user)) (db_notes d))), d)"

definition create_note ::
  "(datetime \<Rightarrow> string) \<Rightarrow> (nat \<Rightarrow> nat) \<Rightarrow> NoteCreate \<Rightarrow> User \<Rightarrow> datetime \<Rightarrow> db
     \<Rightarrow> (error + NoteResponse) \<times> db" where
  "create_note isoformat rnd note_create current_user now d =
     (case add_note (NoteCreate_title note_create) (NoteCreate_content note_create)
             (Some (User_id current_user)) (Some (generate_share_id rnd)) now d of
        Inl e \<Rightarrow> (Inl e, d)
      | Inr (db_note, d') \<Rightarrow> (Inr (note_response isoformat db_note), d'))"

definition update_note ::
  "(datetime \<Rightarrow> string) \<Rightarrow> int \<Rightarrow> NoteUpdate \<Rightarrow> User \<Rightarrow> datetime \<Rightarrow> db
     \<Rightarrow> (error + NoteResponse) \<times> db" where
  "update_note isoformat note_id note_update current_user now d =
     (case find (\<lambda>n. Note_id n = note_id \<and> Note_owner_id n = Some (User_id current_user))
             (db_notes d) of
        None \<Rightarrow> (Inl (HTTPException 404 ''Note not found''), d)
      | Some db_note \<Rightarrow>
          (let n1 = (case NoteUpdate_title note_update of
                       None \<Rightarrow> db_note | Some t \<Rightarrow> db_note\<lparr>Note_title := t\<rparr>);
               n2 = (case NoteUpdate_content note_update of
                       None \<Rightarrow> n1 | Some c \<Rightarrow> n1\<lparr>Note_content := c\<rparr>);
               n3 = (case NoteUpdate_is_public note_update of
                       None \<Rightarrow> n2 | Some p \<Rightarrow> n2\<lparr>Note_is_public := p\<rparr>);
               (row, d') = update_row db_note n3 now d
           in (Inr (note_response isoformat row), d')))"

definition delete_note :: "int \<Rightarrow> User \<Rightarrow> db \<Rightarrow> (error + string) \<times> db" where
  "delete_note note_id current_user d =
     (case find (\<lambda>n. Note_id n = note_id \<and> Note_owner_id n = Some (User_id current_user))
             (db_notes d) of
        None \<Rightarrow> (Inl (HTTPException 404 ''Note not found''), d)
      | Some db_note \<Rightarrow> (Inr ''Note deleted successfully'', delete_row db_note d))"

definition get_shared_note ::
  "(datetime \<Rightarrow> string) \<Rightarrow> string \<Rightarrow> db \<Rightarrow> (error + SharedNote) \<times> db" where
  "get_shared_note isoformat share_id d =
     (case find (\<lambda>n. Note_share_id n = Some share_id \<and> Note_is_public n = True) (db_notes d) of
        None \<Rightarrow> (Inl (HTTPException 404 ''Note not found or not public''), d)
      | Some n \<Rightarrow>
          (Inr \<lparr>SharedNote_title = Note_title n,
                SharedNote_content = Note_content n,
                SharedNote_created_at = isoformat (Note_created_at n)\<rparr>, d))"

section \<open>The service as a transition system\<close>

text \<open>
  One request of each route, with what the framework and the outside world supply
  to its handler, and the store the request leaves.
\<close>

datatype request =
    Register "string \<Rightarrow> string" UserCreate datetime
  | Login "string \<Rightarrow> string \<Rightarrow> bool" "string \<Rightarrow> string" string string
  | GetNotes User
  | CreateNote "nat \<Rightarrow> nat" NoteCreate User datetime
  | UpdateNote int NoteUpdate User datetime
  | DeleteNote int User
  | GetSharedNote string

fun handle :: "(datetime \<Rightarrow> string) \<Rightarrow> request \<Rightarrow> db \<Rightarrow> db" where
  "handle isoformat (Register get_password_hash user now) d =
     snd (register get_password_hash user now d)"
| "handle isoformat (Login verify_password create_access_token username password) d =
     snd (login verify_password create_access_token username password d)"
| "handle isoformat (GetNotes current_user) d = snd (get_notes isoformat current_user d)"
| "handle isoformat (CreateNote rnd note_create current_user now) d =
     snd (create_note isoformat rnd note_create current_user now d)"
| "handle isoformat (UpdateNote note_id note_update current_user now) d =
     snd (update_note isoformat note_id note_update current_user now d)"
| "handle isoformat (DeleteNote note_id current_user) d = snd (delete_note note_id current_user d)"
| "handle isoformat (GetSharedNote share_id) d = snd (get_shared_note isoformat share_id d)"

text \<open>The stores the service can be in: the empty one, and what a request leaves.\<close>

inductive reachable :: "db \<Rightarrow> bool" where
  reachable_empty: "reachable empty_db"
| reachable_handle: "reachable d \<Longrightarrow> reachable (handle isoformat req d)"

text \<open>
  What a request does to the notes: a note of the store it leaves either continues
  a note of the store before, with the same key, share id, owner and creation time,
  or is the one note \<open>create_note\<close> has added.
\<close>

definition continues :: "Note \<Rightarrow> Note \<Rightarrow> bool" where
  "continues m k \<longleftrightarrow>
     Note_id m = Note_id k \<and> Note_share_id m = Note_share_id k \<and>
     Note_owner_id m = Note_owner_id k \<and> Note_created_at m = Note_created_at k"

section \<open>A small store\<close>

text \<open>
  Two users and one note: what the store holds after \<open>alice\<close> and \<open>bob\<close> have
  registered and \<open>alice\<close> has created the note \<open>Grocery\<close>, with a random source
  that drew index 0 ten times.
\<close>

definition alice :: User where
  "alice = \<lparr>User_id = 1, User_username = ''alice'', User_email = ''a@x.com'',
            User_hashed_password = ''hash:pw123'', User_created_at = 100\<rparr>"

definition bob :: User where
  "bob = \<lparr>User_id = 2, User_username = ''bob'', User_email = ''b@x.com'',
          User_hashed_password = ''hash:hunter2'', User_created_at = 101\<rparr>"

definition grocery :: Note where
  "grocery = \<lparr>Note_id = 1, Note_title = ''Grocery'', Note_content = ''milk'',
              Note_owner_id = Some 1, Note_is_public = False,
              Note_share_id = Some ''aaaaaaaaaa'',
              Note_created_at = 102, Note_updated_at = 102\<rparr>"

definition example_db :: db where
  "example_db = \<lparr>db_users = [alice, bob], db_notes = [grocery]\<rparr>"

text \<open>The same store after \<open>alice\<close> has made the note public at time 103.\<close>

definition grocery_public :: Note where
  "grocery_public = grocery\<lparr>Note_is_public := True, Note_updated_at := 103\<rparr>"

definition shared_db :: db where
  "shared_db = \<lparr>db_users = [alice, bob], db_notes = [grocery_public]\<rparr>"

text \<open>
  A registration request for \<open>carol\<close>, and the first store after another request
  has registered the same username with another email.
\<close>

definition carol_request :: UserCreate where
  "carol_request = \<lparr>UserCreate_username = ''carol'', UserCreate_email = ''c@x.com'',
                     UserCreate_password = ''pw12345''\<rparr>"

definition carol :: User where
  "carol = \<lparr>User_id = 3, User_username = ''carol'', User_email = ''carol@y.org'',
            User_hashed_password = ''hash:qwerty'', User_created_at = 200\<rparr>"

definition raced_db :: db where
  "raced_db = \<lparr>db_users = [alice, bob, carol], db_notes = [grocery]\<rparr>"

section \<open>Properties of the generator\<close>

lemma alphabet_eq:
  "ascii_letters @ digits =
     ''abcdefghijklmnopqrstuvwxyzABCDEFGHIJKLMNOPQRSTUVWXYZ0123456789''"
  by (simp add: ascii_letters_def ascii_lowercase_def ascii_uppercase_def digits_def)

lemma alphabet_length: "length (ascii_letters @ digits) = 62"
  by (simp add: alphabet_eq)

lemma alphabet_distinct: "distinct (ascii_letters @ digits)"
  by (simp add: alphabet_eq)

lemma generate_share_id_length: "length (generate_share_id rnd) = 10"
  by (simp add: generate_share_id_def)

lemma generate_share_id_nth:
  assumes "i < 10"
  shows "generate_share_id rnd ! i = (ascii_letters @ digits) ! (rnd i mod 62)"
proof -
  have ne: "ascii_letters @ digits \<noteq> []"
    using alphabet_length by auto
  have "generate_share_id rnd ! i =
          (case secrets_choice (ascii_letters @ digits) (rnd i) of
             Some c \<Rightarrow> c | None \<Rightarrow> CHR ''?'')"
    using assms unfolding generate_share_id_def by (simp del: upt_Suc)
  also have "\<dots> = (ascii_letters @ digits) ! (rnd i mod 62)"
    using ne unfolding secrets_choice_def randbelow_def alphabet_length by (simp only: if_False option.case)
  finally show ?thesis .
qed

lemma generate_share_id_set: "set (generate_share_id rnd) \<subseteq> set (ascii_letters @ digits)"
proof
  fix c assume "c \<in> set (generate_share_id rnd)"
  then obtain i where i: "i < 10" and c: "c = generate_share_id rnd ! i"
    by (metis generate_share_id_length in_set_conv_nth)
  have "rnd i mod 62 < length (ascii_letters @ digits)"
    unfolding alphabet_length by simp
  then have "(ascii_letters @ digits) ! (rnd i mod 62) \<in> set (ascii_letters @ digits)"
    by (rule nth_mem)
  then show "c \<in> set (ascii_letters @ digits)"
    using generate_share_id_nth [OF i] c by simp
qed

lemma generate_share_id_inj:
  "generate_share_id r1 = generate_share_id r2 \<longleftrightarrow> (\<forall>i<10. r1 i mod 62 = r2 i mod 62)"
proof
  assume eq: "generate_share_id r1 = generate_share_id r2"
  show "\<forall>i<10. r1 i mod 62 = r2 i mod 62"
  proof (intro allI impI)
    fix i :: nat assume i: "i < 10"
    have "(ascii_letters @ digits) ! (r1 i mod 62) = (ascii_letters @ digits) ! (r2 i mod 62)"
      using generate_share_id_nth [OF i, of r1] generate_share_id_nth [OF i, of r2] eq by simp
    moreover have "r1 i mod 62 < length (ascii_letters @ digits)"
      and "r2 i mod 62 < length (ascii_letters @ digits)"
      unfolding alphabet_length by simp_all
    ultimately show "r1 i mod 62 = r2 i mod 62"
      using alphabet_distinct nth_eq_iff_index_eq by blast
  qed
next
  assume "\<forall>i<10. r1 i mod 62 = r2 i mod 62"
  then have "\<forall>i<10. generate_share_id r1 ! i = generate_share_id r2 ! i"
    by (simp add: generate_share_id_nth)
  then show "generate_share_id r1 = generate_share_id r2"
    by (simp add: list_eq_iff_nth_eq generate_share_id_length)
qed

lemma generate_share_id_surj:
  assumes len: "length t = 10" and sub: "set t \<subseteq> set (ascii_letters @ digits)"
  shows "\<exists>rnd. (\<forall>i<10. rnd i < 62) \<and> generate_share_id rnd = t"
proof -
  have ex: "\<forall>i<10. \<exists>k<62. (ascii_letters @ digits) ! k = t ! i"
  proof (intro allI impI)
    fix i :: nat assume "i < 10"
    then have "t ! i \<in> set (ascii_letters @ digits)"
      using len sub by (metis nth_mem subsetD)
    then show "\<exists>k<62. (ascii_letters @ digits) ! k = t ! i"
      by (metis in_set_conv_nth alphabet_length)
  qed
  define rnd where "rnd i = (if i < 10 then (SOME k. k < 62 \<and> (ascii_letters @ digits) ! k = t ! i) else 0)" for i
  have r: "\<forall>i<10. rnd i < 62 \<and> (ascii_letters @ digits) ! rnd i = t ! i"
  proof (intro allI impI)
    fix i :: nat assume i: "i < 10"
    with ex have "\<exists>k. k < 62 \<and> (ascii_letters @ digits) ! k = t ! i" by blast
    then have "(SOME k. k < 62 \<and> (ascii_letters @ digits) ! k = t ! i) < 62 \<and>
               (ascii_letters @ digits) ! (SOME k. k < 62 \<and> (ascii_letters @ digits) ! k = t ! i) = t ! i"
      by (rule someI_ex)
    then show "rnd i < 62 \<and> (ascii_letters @ digits) ! rnd i = t ! i"
      using i by (simp add: rnd_def)
  qed
  have "\<forall>i<10. generate_share_id rnd ! i = t ! i"
    using r by (simp add: generate_share_id_nth)
  then have "generate_share_id rnd = t"
    using len by (simp add: list_eq_iff_nth_eq generate_share_id_length)
  moreover have "\<forall>i<10. rnd i < 62" using r by blast
  ultimately show ?thesis by blast
qed

section \<open>Claims about the share id generator\<close>

text \<open>
  C5. Every token \<open>generate_share_id\<close> returns has exactly 10 characters, each one
  a symbol of the 62-symbol alphabet of the ASCII letters and digits. The \<open>i\<close>-th
  character is the alphabet's symbol at the index the random source returned in
  round \<open>i\<close>; the 62 symbols are pairwise different, so two runs give the same token
  exactly when all ten indices agree, and every 10-character alphanumeric string is
  the token of some run. The token is thus a one-to-one image of the ten indices
  drawn by \<open>secrets.choice\<close>, and as uniform as they are.
\<close>

theorem generate_share_id_token:
  "length (generate_share_id rnd) = 10 \<and>
   set (generate_share_id rnd) \<subseteq> set (ascii_letters @ digits) \<and>
   ascii_letters @ digits =
     ''abcdefghijklmnopqrstuvwxyzABCDEFGHIJKLMNOPQRSTUVWXYZ0123456789'' \<and>
   distinct (ascii_letters @ digits) \<and>
   length (ascii_letters @ digits) = 62 \<and>
   (\<forall>i<10. generate_share_id rnd ! i = (ascii_letters @ digits) ! (rnd i mod 62)) \<and>
   (generate_share_id r1 = generate_share_id r2 \<longleftrightarrow> (\<forall>i<10. r1 i mod 62 = r2 i mod 62)) \<and>
   (length t = 10 \<and> set t \<subseteq> set (ascii_letters @ digits) \<longrightarrow>
      (\<exists>r. (\<forall>i<10. r i < 62) \<and> generate_share_id r = t))"
  using generate_share_id_length [of rnd] generate_share_id_set [of rnd]
    alphabet_eq alphabet_distinct alphabet_length
    generate_share_id_nth [of _ rnd] generate_share_id_inj [of r1 r2]
    generate_share_id_surj [of t]
  by blast

theorem generate_share_id_token_witness:
  "length (generate_share_id (\<lambda>i. 7 * i)) = 10 \<and>
   generate_share_id (\<lambda>i. 7 * i) ! 3 = CHR ''v'' \<and>
   generate_share_id (\<lambda>i. 7 * i) ! 9 = CHR ''b'' \<and>
   (\<exists>r. (\<forall>i<10. r i < 62) \<and> generate_share_id r = ''Grocery042'')"
proof -
  have len: "length ''Grocery042'' = 10"
    by simp
  have sub: "set ''Grocery042'' \<subseteq> set (ascii_letters @ digits)"
    unfolding alphabet_eq by simp
  have three: "(3::nat) < 10" and nine: "(9::nat) < 10"
    by simp_all
  note t = generate_share_id_token [of "\<lambda>i. 7 * i" "\<lambda>i. i" "\<lambda>i. i" "''Grocery042''"]
  have "generate_share_id (\<lambda>i. 7 * i) ! 3 = (ascii_letters @ digits) ! ((7 * 3) mod 62)"
    using t three by blast
  moreover have "generate_share_id (\<lambda>i. 7 * i) ! 9 = (ascii_letters @ digits) ! ((7 * 9) mod 62)"
    using t nine by blast
  moreover have "\<exists>r. (\<forall>i<10. r i < 62) \<and> generate_share_id r = ''Grocery042''"
    using t len sub by blast
  moreover have "length (generate_share_id (\<lambda>i. 7 * i)) = 10"
    using t by blast
  ultimately show ?thesis
    unfolding alphabet_eq by simp
qed

section \<open>The store and its constraints\<close>

lemma fold_max_ge: "(a::int) \<le> fold max ids a"
  by (induction ids arbitrary: a) (auto intro: order_trans [OF max.cobounded2])

lemma fold_max_mem: "(x::int) \<in> set ids \<Longrightarrow> x \<le> fold max ids a"
proof (induction ids arbitrary: a)
  case Nil
  then show ?case by simp
next
  case (Cons y ys)
  show ?case
  proof (cases "x = y")
    case True
    have "y \<le> max y a" by simp
    also have "\<dots> \<le> fold max ys (max y a)" by (rule fold_max_ge)
    finally show ?thesis using True by simp
  next
    case False
    with Cons.prems have "x \<in> set ys" by simp
    then show ?thesis using Cons.IH by simp
  qed
qed

lemma fresh_id_fresh: "fresh_id ids \<notin> set ids"
proof
  assume "fresh_id ids \<in> set ids"
  then have "fresh_id ids \<le> fold max ids 0" by (rule fold_max_mem)
  then show False by (simp add: fresh_id_def)
qed

lemma note_by_id:
  assumes "distinct (map Note_id (db_notes d))" "n \<in> set (db_notes d)" "m \<in> set (db_notes d)"
    "Note_id m = Note_id n"
  shows "m = n"
  using assms by (meson distinct_map inj_on_def)

lemma user_by_id:
  assumes "distinct (map User_id (db_users d))" "A \<in> set (db_users d)" "B \<in> set (db_users d)"
    "A \<noteq> B"
  shows "User_id A \<noteq> User_id B"
  using assms by (meson distinct_map inj_on_def)

lemma find_owned_None:
  assumes ok: "db_ok d" and n: "n \<in> set (db_notes d)"
    and own: "Note_owner_id n \<noteq> Some uid"
  shows "find (\<lambda>m. Note_id m = Note_id n \<and> Note_owner_id m = Some uid) (db_notes d) = None"
proof -
  have "\<And>m. m \<in> set (db_notes d) \<Longrightarrow> Note_id m = Note_id n \<Longrightarrow> Note_owner_id m \<noteq> Some uid"
    using note_by_id [of d n] ok n own by (auto simp: db_ok_def)
  then show ?thesis by (auto simp: find_None_iff)
qed

lemma find_SomeD: "find P xs = Some x \<Longrightarrow> x \<in> set xs \<and> P x"
  by (induction xs) (auto split: if_splits)

lemma find_None_conv: "find P xs = None \<longleftrightarrow> \<not> (\<exists>x\<in>set xs. P x)"
  by (auto simp: find_None_iff)

lemma update_note_missing:
  assumes "find (\<lambda>n. Note_id n = note_id \<and> Note_owner_id n = Some (User_id current_user))
             (db_notes d) = None"
  shows "update_note isoformat note_id note_update current_user now d =
           (Inl (HTTPException 404 ''Note not found''), d)"
  using assms by (simp add: update_note_def)

lemma update_note_found:
  assumes "find (\<lambda>n. Note_id n = note_id \<and> Note_owner_id n = Some (User_id current_user))
             (db_notes d) = Some db_note"
  shows "update_note isoformat note_id note_update current_user now d =
           (let n1 = (case NoteUpdate_title note_update of
                       None \<Rightarrow> db_note | Some t \<Rightarrow> db_note\<lparr>Note_title := t\<rparr>);
               n2 = (case NoteUpdate_content note_update of
                       None \<Rightarrow> n1 | Some c \<Rightarrow> n1\<lparr>Note_content := c\<rparr>);
               n3 = (case NoteUpdate_is_public note_update of
                       None \<Rightarrow> n2 | Some p \<Rightarrow> n2\<lparr>Note_is_public := p\<rparr>)
            in (Inr (note_response isoformat (fst (update_row db_note n3 now d))),
                snd (update_row db_note n3 now d)))"
  using assms by (simp add: update_note_def Let_def split: prod.splits)

lemma update_note_found_Inr:
  assumes "find (\<lambda>n. Note_id n = note_id \<and> Note_owner_id n = Some (User_id current_user))
             (db_notes d) = Some db_note"
  shows "\<exists>r. fst (update_note isoformat note_id note_update current_user now d) = Inr r"
  by (simp add: update_note_found [OF assms] Let_def)

lemma delete_note_missing:
  assumes "find (\<lambda>n. Note_id n = note_id \<and> Note_owner_id n = Some (User_id current_user))
             (db_notes d) = None"
  shows "delete_note note_id current_user d = (Inl (HTTPException 404 ''Note not found''), d)"
  using assms by (simp add: delete_note_def)

lemma delete_note_found:
  assumes "find (\<lambda>n. Note_id n = note_id \<and> Note_owner_id n = Some (User_id current_user))
             (db_notes d) = Some db_note"
  shows "delete_note note_id current_user d =
           (Inr ''Note deleted successfully'', delete_row db_note d)"
  using assms by (simp add: delete_note_def)

lemma share_ids_unique:
  assumes "distinct (share_ids d)" "n \<in> set (db_notes d)" "m \<in> set (db_notes d)"
    "Note_share_id n = Some s" "Note_share_id m = Some s"
  shows "m = n"
proof -
  let ?P = "\<lambda>x. Note_share_id x \<noteq> None"
  have d: "distinct (map (the \<circ> Note_share_id) (filter ?P (db_notes d)))"
    using assms(1) by (simp add: share_ids_def map_filter_def)
  have "n \<in> set (filter ?P (db_notes d))" "m \<in> set (filter ?P (db_notes d))"
    using assms by simp_all
  moreover have "(the \<circ> Note_share_id) m = (the \<circ> Note_share_id) n"
    using assms by simp
  ultimately show ?thesis
    using d by (meson distinct_map inj_on_def)
qed

lemma set_share_ids: "set (share_ids d) = {s. \<exists>n\<in>set (db_notes d). Note_share_id n = Some s}"
  by (force simp: share_ids_def map_filter_def image_iff)

lemma share_ids_append:
  "share_ids (d\<lparr>db_notes := db_notes d @ [row]\<rparr>) =
     share_ids d @ (case Note_share_id row of None \<Rightarrow> [] | Some s \<Rightarrow> [s])"
  by (simp add: share_ids_def map_filter_def split: option.splits)

lemma db_ok_empty: "db_ok empty_db"
  by (simp add: db_ok_def empty_db_def share_ids_def map_filter_def)

lemma add_user_ok:
  assumes "db_ok d" "add_user username email hashed_password now d = Inr d'"
  shows "db_ok d'"
  using assms fresh_id_fresh [of "map User_id (db_users d)"]
  by (auto simp: add_user_def db_ok_def share_ids_def split: if_splits)

lemma add_note_ok:
  assumes "db_ok d" "add_note title content owner_id share_id now d = Inr (row, d')"
  shows "db_ok d'"
proof -
  have eq: "d' = d\<lparr>db_notes := db_notes d @ [row]\<rparr>"
    and id: "Note_id row = fresh_id (map Note_id (db_notes d))"
    and sh: "Note_share_id row = share_id"
    and new: "\<And>s. share_id = Some s \<Longrightarrow> s \<notin> set (share_ids d)"
    using assms(2) by (auto simp: add_note_def Let_def split: if_splits option.splits)
  have "distinct (share_ids d')"
    using assms(1) new sh unfolding eq share_ids_append
    by (auto simp: db_ok_def split: option.splits)
  moreover have "distinct (map Note_id (db_notes d'))"
    using assms(1) fresh_id_fresh [of "map Note_id (db_notes d)"] id
    by (simp add: eq db_ok_def)
  ultimately show ?thesis
    using assms(1) by (simp add: eq db_ok_def)
qed

lemma replace_by_id:
  assumes "distinct (map Note_id (db_notes d))" "old \<in> set (db_notes d)"
  shows "map (\<lambda>r. if Note_id r = Note_id old then row else r) (db_notes d) =
         map (\<lambda>r. if r = old then row else r) (db_notes d)"
  using note_by_id [OF assms(1) assms(2)] by (auto intro!: map_cong)

lemma update_row_ok:
  assumes ok: "db_ok d" and old: "old \<in> set (db_notes d)"
    and id: "Note_id new = Note_id old" and sh: "Note_share_id new = Note_share_id old"
  shows "db_ok (snd (update_row old new now d))"
proof (cases "new = old")
  case True
  then show ?thesis using ok by (simp add: update_row_def)
next
  case False
  let ?row = "new\<lparr>Note_updated_at := now\<rparr>"
  let ?g = "\<lambda>r. if r = old then ?row else r"
  have dist: "distinct (map Note_id (db_notes d))"
    using ok by (simp add: db_ok_def)
  have nts: "db_notes (snd (update_row old new now d)) = map ?g (db_notes d)"
    using False replace_by_id [OF dist old] by (simp add: update_row_def Let_def)
  have users: "db_users (snd (update_row old new now d)) = db_users d"
    using False by (simp add: update_row_def Let_def)
  have ids: "map Note_id (map ?g (db_notes d)) = map Note_id (db_notes d)"
    using id by (auto intro!: map_cong)
  have shs: "map Note_share_id (map ?g (db_notes d)) = map Note_share_id (db_notes d)"
    using sh by (auto intro!: map_cong)
  have "List.map_filter Note_share_id (map ?g (db_notes d)) =
        List.map_filter Note_share_id (db_notes d)"
  proof -
    have "List.map_filter Note_share_id xs = List.map_filter (\<lambda>x. x) (map Note_share_id xs)" for xs :: "Note list"
      by (induction xs) (simp_all add: map_filter_simps split: option.splits)
    then show ?thesis using shs by metis
  qed
  then have "share_ids (snd (update_row old new now d)) = share_ids d"
    by (simp add: share_ids_def nts)
  moreover have "distinct (map Note_id (db_notes (snd (update_row old new now d))))"
    unfolding nts ids by (rule dist)
  ultimately show ?thesis
    using ok by (simp add: db_ok_def users)
qed

lemma delete_row_ok:
  assumes "db_ok d"
  shows "db_ok (delete_row old d)"
proof -
  let ?P = "\<lambda>x. Note_share_id x \<noteq> None"
  let ?Q = "\<lambda>r. Note_id r \<noteq> Note_id old"
  have "distinct (map (the \<circ> Note_share_id) (filter ?P (db_notes d)))"
    using assms by (simp add: db_ok_def share_ids_def map_filter_def)
  then have "distinct (map (the \<circ> Note_share_id) (filter ?Q (filter ?P (db_notes d))))"
    by (rule distinct_map_filter)
  moreover have "filter ?Q (filter ?P (db_notes d)) = filter ?P (filter ?Q (db_notes d))"
    by (simp add: conj_commute)
  ultimately have "distinct (share_ids (delete_row old d))"
    by (simp add: share_ids_def delete_row_def map_filter_def)
  then show ?thesis
    using assms by (simp add: db_ok_def delete_row_def distinct_map_filter)
qed

lemma example_db_ok: "db_ok example_db"
  by (simp add: db_ok_def example_db_def alice_def bob_def grocery_def share_ids_def
      map_filter_simps)

lemma get_shared_note_missing:
  assumes "find (\<lambda>n. Note_share_id n = Some s \<and> Note_is_public n = True) (db_notes d) = None"
  shows "get_shared_note isoformat s d =
           (Inl (HTTPException 404 ''Note not found or not public''), d)"
  using assms by (simp add: get_shared_note_def)

lemma get_shared_note_found:
  assumes "find (\<lambda>n. Note_share_id n = Some s \<and> Note_is_public n = True) (db_notes d) = Some n"
  shows "get_shared_note isoformat s d =
           (Inr \<lparr>SharedNote_title = Note_title n, SharedNote_content = Note_content n,
                 SharedNote_created_at = isoformat (Note_created_at n)\<rparr>, d)"
  using assms by (simp add: get_shared_note_def)

lemma get_shared_note_public:
  assumes ok: "db_ok d" and n: "n \<in> set (db_notes d)"
    and sh: "Note_share_id n = Some s" and pub: "Note_is_public n"
  shows "get_shared_note isoformat s d =
           (Inr \<lparr>SharedNote_title = Note_title n, SharedNote_content = Note_content n,
                 SharedNote_created_at = isoformat (Note_created_at n)\<rparr>, d)"
proof (cases "find (\<lambda>n. Note_share_id n = Some s \<and> Note_is_public n = True) (db_notes d)")
  case None
  then show ?thesis using n sh pub by (simp add: find_None_conv)
next
  case (Some m)
  from find_SomeD [OF Some] have "m \<in> set (db_notes d)" "Note_share_id m = Some s"
    by simp_all
  then have "m = n"
    using share_ids_unique [of d n m s] ok n sh by (simp add: db_ok_def)
  then show ?thesis
    using get_shared_note_found [OF Some] by simp
qed

lemma find_owned:
  assumes ok: "db_ok d" and n: "n \<in> set (db_notes d)" and own: "Note_owner_id n = Some uid"
  shows "find (\<lambda>m. Note_id m = Note_id n \<and> Note_owner_id m = Some uid) (db_notes d) = Some n"
proof (cases "find (\<lambda>m. Note_id m = Note_id n \<and> Note_owner_id m = Some uid) (db_notes d)")
  case None
  then show ?thesis using n own by (simp add: find_None_conv)
next
  case (Some m)
  from find_SomeD [OF Some] have "m \<in> set (db_notes d)" "Note_id m = Note_id n"
    by simp_all
  then have "m = n"
    using note_by_id [of d n m] ok n by (simp add: db_ok_def)
  then show ?thesis using Some by simp
qed

lemma update_row_notes:
  assumes ok: "db_ok d" and old: "old \<in> set (db_notes d)"
  shows "snd (update_row old new now d) =
           d\<lparr>db_notes := map (\<lambda>r. if r = old then fst (update_row old new now d) else r)
                            (db_notes d)\<rparr>"
proof (cases "new = old")
  case True
  have m: "map (\<lambda>r. if r = old then old else r) (db_notes d) = db_notes d"
    by (rule map_idI) simp
  have e: "fst (update_row old new now d) = old" "snd (update_row old new now d) = d"
    using True by (simp_all add: update_row_def)
  show ?thesis unfolding e m by simp
next
  case False
  have dist: "distinct (map Note_id (db_notes d))"
    using ok by (simp add: db_ok_def)
  show ?thesis
    using False replace_by_id [OF dist old] by (simp add: update_row_def Let_def)
qed


lemma assigned_note:
  "(case NoteUpdate_is_public note_update of
      None \<Rightarrow> (case NoteUpdate_content note_update of
                  None \<Rightarrow> (case NoteUpdate_title note_update of
                              None \<Rightarrow> n | Some t \<Rightarrow> n\<lparr>Note_title := t\<rparr>)
                | Some c \<Rightarrow> (case NoteUpdate_title note_update of
                               None \<Rightarrow> n | Some t \<Rightarrow> n\<lparr>Note_title := t\<rparr>)\<lparr>Note_content := c\<rparr>)
    | Some p \<Rightarrow> (case NoteUpdate_content note_update of
                  None \<Rightarrow> (case NoteUpdate_title note_update of
                              None \<Rightarrow> n | Some t \<Rightarrow> n\<lparr>Note_title := t\<rparr>)
                | Some c \<Rightarrow> (case NoteUpdate_title note_update of
                               None \<Rightarrow> n | Some t \<Rightarrow> n\<lparr>Note_title := t\<rparr>)\<lparr>Note_content := c\<rparr>)
                   \<lparr>Note_is_public := p\<rparr>) =
   n\<lparr>Note_title := (case NoteUpdate_title note_update of None \<Rightarrow> Note_title n | Some t \<Rightarrow> t),
     Note_content := (case NoteUpdate_content note_update of None \<Rightarrow> Note_content n | Some c \<Rightarrow> c),
     Note_is_public := (case NoteUpdate_is_public note_update of None \<Rightarrow> Note_is_public n | Some p \<Rightarrow> p)\<rparr>"
  by (simp split: option.splits)

lemma assigned_same:
  "n\<lparr>Note_title := t, Note_content := c, Note_is_public := p\<rparr> = n \<longleftrightarrow>
     t = Note_title n \<and> c = Note_content n \<and> p = Note_is_public n"
  by (cases n) auto

lemma update_note_owned:
  assumes ok: "db_ok d" and n: "n \<in> set (db_notes d)"
    and own: "Note_owner_id n = Some (User_id current_user)"
  shows "\<exists>n'. update_note isoformat (Note_id n) note_update current_user now d =
                  (Inr (note_response isoformat n'),
                   d\<lparr>db_notes := map (\<lambda>r. if r = n then n' else r) (db_notes d)\<rparr>) \<and>
               Note_title n' = (case NoteUpdate_title note_update of
                                  None \<Rightarrow> Note_title n | Some t \<Rightarrow> t) \<and>
               Note_content n' = (case NoteUpdate_content note_update of
                                    None \<Rightarrow> Note_content n | Some c \<Rightarrow> c) \<and>
               Note_is_public n' = (case NoteUpdate_is_public note_update of
                                      None \<Rightarrow> Note_is_public n | Some p \<Rightarrow> p) \<and>
               Note_id n' = Note_id n \<and> Note_owner_id n' = Note_owner_id n \<and>
               Note_share_id n' = Note_share_id n \<and> Note_created_at n' = Note_created_at n \<and>
               Note_updated_at n' =
                 (if Note_title n' = Note_title n \<and> Note_content n' = Note_content n \<and>
                     Note_is_public n' = Note_is_public n
                  then Note_updated_at n else now)"
proof -
  let ?t = "case NoteUpdate_title note_update of None \<Rightarrow> Note_title n | Some t \<Rightarrow> t"
  let ?c = "case NoteUpdate_content note_update of None \<Rightarrow> Note_content n | Some c \<Rightarrow> c"
  let ?p = "case NoteUpdate_is_public note_update of None \<Rightarrow> Note_is_public n | Some p \<Rightarrow> p"
  let ?n3 = "n\<lparr>Note_title := ?t, Note_content := ?c, Note_is_public := ?p\<rparr>"
  let ?row = "fst (update_row n ?n3 now d)"
  have found: "find (\<lambda>m. Note_id m = Note_id n \<and> Note_owner_id m = Some (User_id current_user))
                 (db_notes d) = Some n"
    by (rule find_owned [OF ok n own])
  have run: "update_note isoformat (Note_id n) note_update current_user now d =
          (Inr (note_response isoformat ?row), snd (update_row n ?n3 now d))"
    unfolding update_note_found [OF found] Let_def assigned_note ..
  have store: "snd (update_row n ?n3 now d) =
          d\<lparr>db_notes := map (\<lambda>r. if r = n then ?row else r) (db_notes d)\<rparr>"
    by (rule update_row_notes [OF ok n])
  have row: "?row = (if ?t = Note_title n \<and> ?c = Note_content n \<and> ?p = Note_is_public n
                     then n else ?n3\<lparr>Note_updated_at := now\<rparr>)"
    unfolding update_row_def Let_def assigned_same by simp
  have fields: "Note_title ?row = ?t \<and> Note_content ?row = ?c \<and> Note_is_public ?row = ?p \<and>
      Note_id ?row = Note_id n \<and> Note_owner_id ?row = Note_owner_id n \<and>
      Note_share_id ?row = Note_share_id n \<and> Note_created_at ?row = Note_created_at n \<and>
      Note_updated_at ?row =
        (if Note_title ?row = Note_title n \<and> Note_content ?row = Note_content n \<and>
            Note_is_public ?row = Note_is_public n
         then Note_updated_at n else now)"
    unfolding row by simp
  show ?thesis
    using run store fields by (intro exI [of _ ?row]) simp
qed

lemma shared_db_ok: "db_ok shared_db"
  by (simp add: db_ok_def shared_db_def alice_def bob_def grocery_public_def grocery_def
      share_ids_def map_filter_simps)

lemma register_query_None:
  "register_query user d = None \<longleftrightarrow>
     \<not> (\<exists>u\<in>set (db_users d). User_username u = UserCreate_username user \<or>
                              User_email u = UserCreate_email user)"
  by (simp add: register_query_def find_None_conv)

lemma add_user_fresh:
  assumes "\<not> (\<exists>u\<in>set (db_users d). User_username u = username \<or> User_email u = email)"
  shows "add_user username email hashed_password now d =
           Inr (d\<lparr>db_users := db_users d @
                  [\<lparr>User_id = fresh_id (map User_id (db_users d)),
                    User_username = username,
                    User_email = email,
                    User_hashed_password = hashed_password,
                    User_created_at = now\<rparr>]\<rparr>)"
  using assms by (auto simp: add_user_def)

lemma add_user_taken:
  assumes "\<exists>u\<in>set (db_users d). User_username u = username \<or> User_email u = email"
  shows "add_user username email hashed_password now d = Inl IntegrityError"
  using assms by (auto simp: add_user_def)

lemma register_taken:
  assumes "\<exists>u\<in>set (db_users d). User_username u = UserCreate_username user \<or>
                              User_email u = UserCreate_email user"
  shows "register get_password_hash user now d =
           (Inl (HTTPException 400 ''Username or email already registered''), d)"
proof -
  from assms have "register_query user d \<noteq> None"
    by (simp add: register_query_None)
  then show ?thesis
    by (auto simp: register_def)
qed

lemma register_fresh:
  assumes "\<not> (\<exists>u\<in>set (db_users d). User_username u = UserCreate_username user \<or>
                              User_email u = UserCreate_email user)"
  shows "register get_password_hash user now d =
           (Inr ''User created successfully'',
            d\<lparr>db_users := db_users d @
                  [\<lparr>User_id = fresh_id (map User_id (db_users d)),
                    User_username = UserCreate_username user,
                    User_email = UserCreate_email user,
                    User_hashed_password = get_password_hash (UserCreate_password user),
                    User_created_at = now\<rparr>]\<rparr>)"
proof -
  from assms have "register_query user d = None"
    by (simp add: register_query_None)
  then show ?thesis
    by (simp add: register_def register_create_def add_user_fresh [OF assms])
qed

lemma generate_share_id_zero: "generate_share_id (\<lambda>i. 0) = ''aaaaaaaaaa''"
proof -
  have "\<forall>i<10. generate_share_id (\<lambda>i. 0) ! i = ''aaaaaaaaaa'' ! i"
  proof (intro allI impI)
    fix i :: nat assume i: "i < 10"
    then have "''aaaaaaaaaa'' ! i = CHR ''a''"
      by (auto simp: less_Suc_eq numeral_eq_Suc nth_Cons')
    moreover have "generate_share_id (\<lambda>i. 0) ! i = CHR ''a''"
      unfolding generate_share_id_nth [OF i] alphabet_eq by simp
    ultimately show "generate_share_id (\<lambda>i. 0) ! i = ''aaaaaaaaaa'' ! i" by simp
  qed
  then show ?thesis
    by (simp add: list_eq_iff_nth_eq generate_share_id_length)
qed

lemma add_note_fresh:
  assumes "s \<notin> set (share_ids d)"
  shows "add_note title content owner_id (Some s) now d =
           Inr (\<lparr>Note_id = fresh_id (map Note_id (db_notes d)),
                 Note_title = title,
                 Note_content = content,
                 Note_owner_id = owner_id,
                 Note_is_public = False,
                 Note_share_id = Some s,
                 Note_created_at = now,
                 Note_updated_at = now\<rparr>,
                d\<lparr>db_notes := db_notes d @
                   [\<lparr>Note_id = fresh_id (map Note_id (db_notes d)),
                     Note_title = title,
                     Note_content = content,
                     Note_owner_id = owner_id,
                     Note_is_public = False,
                     Note_share_id = Some s,
                     Note_created_at = now,
                     Note_updated_at = now\<rparr>]\<rparr>)"
  using assms by (simp add: add_note_def Let_def)

lemma add_note_taken:
  assumes "s \<in> set (share_ids d)"
  shows "add_note title content owner_id (Some s) now d = Inl IntegrityError"
  using assms by (simp add: add_note_def)

lemma create_note_fresh:
  assumes "generate_share_id rnd \<notin> set (share_ids d)"
  shows "create_note isoformat rnd note_create current_user now d =
           (Inr (note_response isoformat
                  \<lparr>Note_id = fresh_id (map Note_id (db_notes d)),
                   Note_title = NoteCreate_title note_create,
                   Note_content = NoteCreate_content note_create,
                   Note_owner_id = Some (User_id current_user),
                   Note_is_public = False,
                   Note_share_id = Some (generate_share_id rnd),
                   Note_created_at = now,
                   Note_updated_at = now\<rparr>),
            d\<lparr>db_notes := db_notes d @
                 [\<lparr>Note_id = fresh_id (map Note_id (db_notes d)),
                   Note_title = NoteCreate_title note_create,
                   Note_content = NoteCreate_content note_create,
                   Note_owner_id = Some (User_id current_user),
                   Note_is_public = False,
                   Note_share_id = Some (generate_share_id rnd),
                   Note_created_at = now,
                   Note_updated_at = now\<rparr>]\<rparr>)"
  by (simp add: create_note_def add_note_fresh [OF assms])

lemma create_note_taken:
  assumes "generate_share_id rnd \<in> set (share_ids d)"
  shows "create_note isoformat rnd note_create current_user now d = (Inl IntegrityError, d)"
  by (simp add: create_note_def add_note_taken [OF assms])

lemma register_notes: "db_notes (snd (register get_password_hash user now d)) = db_notes d"
proof (cases "\<exists>u\<in>set (db_users d). User_username u = UserCreate_username user \<or>
                              User_email u = UserCreate_email user")
  case True
  then show ?thesis by (simp add: register_taken)
next
  case False
  then show ?thesis by (simp add: register_fresh)
qed

lemma register_ok:
  assumes "db_ok d"
  shows "db_ok (snd (register get_password_hash user now d))"
proof (cases "add_user (UserCreate_username user) (UserCreate_email user)
                (get_password_hash (UserCreate_password user)) now d")
  case (Inl e)
  then show ?thesis
    using assms by (simp add: register_def register_create_def split: option.splits)
next
  case (Inr d')
  then have "db_ok d'"
    using add_user_ok [OF assms] by blast
  then show ?thesis
    using assms Inr by (simp add: register_def register_create_def split: option.splits)
qed

lemma login_store: "snd (login verify_password create_access_token username password d) = d"
  by (simp add: login_def split: option.splits)

lemma get_notes_store: "snd (get_notes isoformat current_user d) = d"
  by (simp add: get_notes_def)

lemma get_shared_note_store: "snd (get_shared_note isoformat s d) = d"
  by (simp add: get_shared_note_def split: option.splits)

lemma create_note_ok:
  assumes "db_ok d"
  shows "db_ok (snd (create_note isoformat rnd note_create current_user now d))"
proof (cases "add_note (NoteCreate_title note_create) (NoteCreate_content note_create)
                (Some (User_id current_user)) (Some (generate_share_id rnd)) now d")
  case (Inl e)
  then show ?thesis using assms by (simp add: create_note_def)
next
  case (Inr p)
  obtain row d' where p: "p = (row, d')" by (cases p)
  have "db_ok d'"
    using add_note_ok [OF assms] Inr p by blast
  then show ?thesis using Inr p by (simp add: create_note_def)
qed

lemma update_note_ok:
  assumes ok: "db_ok d"
  shows "db_ok (snd (update_note isoformat note_id note_update current_user now d))"
proof (cases "find (\<lambda>n. Note_id n = note_id \<and> Note_owner_id n = Some (User_id current_user))
                (db_notes d)")
  case None
  then show ?thesis using ok by (simp add: update_note_missing)
next
  case (Some db_note)
  from find_SomeD [OF Some] have mem: "db_note \<in> set (db_notes d)"
    by simp
  show ?thesis
    unfolding update_note_found [OF Some] Let_def assigned_note
    by (simp add: update_row_ok [OF ok mem])
qed

lemma delete_note_ok:
  assumes ok: "db_ok d"
  shows "db_ok (snd (delete_note note_id current_user d))"
  using ok by (simp add: delete_note_def delete_row_ok split: option.splits)

lemma handle_ok:
  assumes "db_ok d"
  shows "db_ok (handle isoformat req d)"
  using assms
  by (cases req)
    (simp_all add: register_ok login_store get_notes_store create_note_ok update_note_ok
      delete_note_ok get_shared_note_store)

lemma reachable_ok: "reachable d \<Longrightarrow> db_ok d"
  by (induction rule: reachable.induct) (simp_all add: db_ok_empty handle_ok)

lemma continues_refl: "continues m m"
  by (simp add: continues_def)

lemma handle_notes:
  assumes ok: "db_ok d" and m: "m \<in> set (db_notes (handle isoformat req d))"
  shows "(\<exists>k\<in>set (db_notes d). continues m k) \<or>
         (Note_id m \<notin> set (map Note_id (db_notes d)) \<and>
          (\<exists>rnd. Note_share_id m = Some (generate_share_id rnd)) \<and>
          (\<exists>uid. Note_owner_id m = Some uid) \<and> \<not> Note_is_public m)"
proof (cases req)
  case (Register get_password_hash user now)
  then show ?thesis using m continues_refl by (auto simp: register_notes)
next
  case (Login verify_password create_access_token username password)
  then show ?thesis using m continues_refl by (auto simp: login_store)
next
  case (GetNotes current_user)
  then show ?thesis using m continues_refl by (auto simp: get_notes_store)
next
  case (CreateNote rnd note_create current_user now)
  show ?thesis
  proof (cases "generate_share_id rnd \<in> set (share_ids d)")
    case True
    then show ?thesis
      using m CreateNote continues_refl by (auto simp: create_note_taken)
  next
    case False
    let ?n = "\<lparr>Note_id = fresh_id (map Note_id (db_notes d)),
                   Note_title = NoteCreate_title note_create,
                   Note_content = NoteCreate_content note_create,
                   Note_owner_id = Some (User_id current_user),
                   Note_is_public = False,
                   Note_share_id = Some (generate_share_id rnd),
                   Note_created_at = now,
                   Note_updated_at = now\<rparr>"
    have "db_notes (handle isoformat req d) = db_notes d @ [?n]"
      unfolding CreateNote handle.simps create_note_fresh [OF False] by simp
    then have "m \<in> set (db_notes d) \<or> m = ?n"
      using m by auto
    then show ?thesis
    proof
      assume "m \<in> set (db_notes d)"
      then show ?thesis using continues_refl by blast
    next
      assume mn: "m = ?n"
      have "Note_id ?n \<notin> set (map Note_id (db_notes d))"
        using fresh_id_fresh [of "map Note_id (db_notes d)"] by simp
      moreover have "\<exists>r. Note_share_id ?n = Some (generate_share_id r)"
        by (intro exI [of _ rnd]) simp
      moreover have "\<exists>uid. Note_owner_id ?n = Some uid"
        by simp
      moreover have "\<not> Note_is_public ?n"
        by simp
      ultimately show ?thesis
        unfolding mn by blast
    qed
  qed
next
  case (UpdateNote note_id note_update current_user now)
  show ?thesis
  proof (cases "find (\<lambda>n. Note_id n = note_id \<and> Note_owner_id n = Some (User_id current_user))
                  (db_notes d)")
    case None
    then show ?thesis
      using m UpdateNote continues_refl by (auto simp: update_note_missing)
  next
    case (Some db_note)
    from find_SomeD [OF Some] have mem: "db_note \<in> set (db_notes d)"
      and id: "Note_id db_note = note_id"
      and own: "Note_owner_id db_note = Some (User_id current_user)"
      by simp_all
    from update_note_owned [OF ok mem own, of isoformat note_update now]
    obtain n' where store: "snd (update_note isoformat note_id note_update current_user now d) =
        d\<lparr>db_notes := map (\<lambda>r. if r = db_note then n' else r) (db_notes d)\<rparr>"
      and cont: "continues n' db_note"
      unfolding id continues_def by auto
    from m obtain r where r: "r \<in> set (db_notes d)" and mr: "m = (if r = db_note then n' else r)"
      unfolding UpdateNote handle.simps store by auto
    show ?thesis
    proof (cases "r = db_note")
      case True
      then show ?thesis using mr cont mem by auto
    next
      case False
      then show ?thesis using mr r continues_refl by auto
    qed
  qed
next
  case (DeleteNote note_id current_user)
  then show ?thesis
    using m continues_refl by (auto simp: delete_note_def delete_row_def split: option.splits)
next
  case (GetSharedNote share_id)
  then show ?thesis using m continues_refl by (auto simp: get_shared_note_store)
qed


lemma reachable_notes:
  assumes "reachable d" "n \<in> set (db_notes d)"
  shows "(\<exists>s. Note_share_id n = Some s \<and> length s = 10) \<and> (\<exists>uid. Note_owner_id n = Some uid)"
  using assms
proof (induction arbitrary: n rule: reachable.induct)
  case reachable_empty
  then show ?case by (simp add: empty_db_def)
next
  case (reachable_handle d isoformat req)
  from handle_notes [OF reachable_ok [OF reachable_handle.hyps] reachable_handle.prems]
  show ?case
  proof
    assume "\<exists>k\<in>set (db_notes d). continues n k"
    then obtain k where k: "k \<in> set (db_notes d)" and c: "continues n k"
      by blast
    from reachable_handle.IH [OF k] c show ?thesis
      by (simp add: continues_def)
  next
    assume "Note_id n \<notin> set (map Note_id (db_notes d)) \<and>
          (\<exists>rnd. Note_share_id n = Some (generate_share_id rnd)) \<and>
          (\<exists>uid. Note_owner_id n = Some uid) \<and> \<not> Note_is_public n"
    then show ?thesis
      using generate_share_id_length by auto
  qed
qed

lemma example_db_reachable: "reachable example_db"
proof -
  let ?h = "\<lambda>p. ''hash:'' @ p"
  let ?d1 = "handle (\<lambda>t. ''T'')
      (Register ?h \<lparr>UserCreate_username = ''alice'', UserCreate_email = ''a@x.com'',
                    UserCreate_password = ''pw123''\<rparr> 100) empty_db"
  let ?d2 = "handle (\<lambda>t. ''T'')
      (Register ?h \<lparr>UserCreate_username = ''bob'', UserCreate_email = ''b@x.com'',
                    UserCreate_password = ''hunter2''\<rparr> 101) ?d1"
  let ?d3 = "handle (\<lambda>t. ''T'')
      (CreateNote (\<lambda>i. 0) \<lparr>NoteCreate_title = ''Grocery'', NoteCreate_content = ''milk''\<rparr>
         alice 102) ?d2"
  have d1: "?d1 = \<lparr>db_users = [alice], db_notes = []\<rparr>"
    by (simp add: register_def register_query_def register_create_def add_user_def
        empty_db_def fresh_id_def alice_def)
  have d2: "?d2 = \<lparr>db_users = [alice, bob], db_notes = []\<rparr>"
    unfolding d1
    by (simp add: register_def register_query_def register_create_def add_user_def
        fresh_id_def alice_def bob_def)
  have d3: "?d3 = example_db"
    unfolding d2
    by (simp add: create_note_def add_note_def Let_def generate_share_id_zero share_ids_def
        map_filter_simps fresh_id_def example_db_def grocery_def alice_def)
  have "reachable ?d3"
    by (intro reachable_handle reachable_empty)
  then show ?thesis
    unfolding d3 .
qed

lemma handle_same_id:
  assumes ok: "db_ok d" and m: "m \<in> set (db_notes (handle isoformat req d))"
    and k: "k \<in> set (db_notes d)" and id: "Note_id m = Note_id k"
  shows "continues m k"
proof -
  from handle_notes [OF ok m] id k
  obtain k' where k': "k' \<in> set (db_notes d)" and c: "continues m k'"
    by auto
  have "Note_id k' = Note_id k"
    using c id by (simp add: continues_def)
  then have "k' = k"
    using note_by_id [of d k k'] ok k k' by (simp add: db_ok_def)
  then show ?thesis using c by simp
qed

lemma generate_share_id_two: "generate_share_id (\<lambda>i. 2) = ''cccccccccc''"
proof -
  have "\<forall>i<10. generate_share_id (\<lambda>i. 2) ! i = ''cccccccccc'' ! i"
  proof (intro allI impI)
    fix i :: nat assume i: "i < 10"
    then have "''cccccccccc'' ! i = CHR ''c''"
      by (auto simp: less_Suc_eq numeral_eq_Suc nth_Cons')
    moreover have "generate_share_id (\<lambda>i. 2) ! i = CHR ''c''"
      unfolding generate_share_id_nth [OF i] alphabet_eq by simp
    ultimately show "generate_share_id (\<lambda>i. 2) ! i = ''cccccccccc'' ! i" by simp
  qed
  then show ?thesis
    by (simp add: list_eq_iff_nth_eq generate_share_id_length)
qed

lemma example_db_share_ids: "share_ids example_db = [''aaaaaaaaaa'']"
  by (simp add: share_ids_def example_db_def grocery_def map_filter_simps)

section \<open>Claims about ownership\<close>

text \<open>
  C1. Let the store satisfy its constraints, let \<open>A\<close> and \<open>B\<close> be two different
  registered users and \<open>n\<close> a stored note owned by \<open>A\<close>. Then \<open>update_note\<close>
  and \<open>delete_note\<close>, called by \<open>B\<close> on the id of \<open>n\<close>, both raise the 404
  \<open>Note not found\<close> and leave the store as it was, with \<open>n\<close> in it.
\<close>

theorem update_delete_of_foreign_note:
  assumes ok: "db_ok d"
    and A: "A \<in> set (db_users d)" and B: "B \<in> set (db_users d)" and AB: "A \<noteq> B"
    and n: "n \<in> set (db_notes d)" and own: "Note_owner_id n = Some (User_id A)"
  shows "update_note isoformat (Note_id n) note_update B now d =
           (Inl (HTTPException 404 ''Note not found''), d) \<and>
         delete_note (Note_id n) B d = (Inl (HTTPException 404 ''Note not found''), d) \<and>
         n \<in> set (db_notes (snd (update_note isoformat (Note_id n) note_update B now d))) \<and>
         n \<in> set (db_notes (snd (delete_note (Note_id n) B d)))"
proof -
  have "User_id A \<noteq> User_id B"
    using user_by_id [of d A B] ok A B AB by (simp add: db_ok_def)
  then have "Note_owner_id n \<noteq> Some (User_id B)"
    using own by simp
  then have none: "find (\<lambda>m. Note_id m = Note_id n \<and> Note_owner_id m = Some (User_id B))
                     (db_notes d) = None"
    by (rule find_owned_None [OF ok n])
  show ?thesis
    using n by (simp add: update_note_def delete_note_def none)
qed

theorem update_delete_of_foreign_note_witness:
  "db_ok example_db \<and> alice \<in> set (db_users example_db) \<and> bob \<in> set (db_users example_db) \<and>
   alice \<noteq> bob \<and> grocery \<in> set (db_notes example_db) \<and>
   Note_owner_id grocery = Some (User_id alice) \<and>
   update_note (\<lambda>t. ''T'') 1
     \<lparr>NoteUpdate_title = Some ''Mine now'', NoteUpdate_content = None,
      NoteUpdate_is_public = Some True\<rparr> bob 500 example_db =
     (Inl (HTTPException 404 ''Note not found''), example_db) \<and>
   delete_note 1 bob example_db = (Inl (HTTPException 404 ''Note not found''), example_db)"
proof -
  have A: "alice \<in> set (db_users example_db)" and B: "bob \<in> set (db_users example_db)"
    and n: "grocery \<in> set (db_notes example_db)"
    by (simp_all add: example_db_def)
  have AB: "alice \<noteq> bob"
    by (simp add: alice_def bob_def)
  have own: "Note_owner_id grocery = Some (User_id alice)" and id: "Note_id grocery = 1"
    by (simp_all add: grocery_def alice_def)
  show ?thesis
    using update_delete_of_foreign_note [OF example_db_ok A B AB n own,
        of "\<lambda>t. ''T''" "\<lparr>NoteUpdate_title = Some ''Mine now'', NoteUpdate_content = None,
      NoteUpdate_is_public = Some True\<rparr>" 500]
      example_db_ok A B AB n own
    by (simp add: id)
qed

text \<open>
  C10. \<open>update_note\<close> and \<open>delete_note\<close> raise nothing but the 404
  \<open>Note not found\<close>; they raise it exactly when no stored note has the requested id
  and the caller as owner; and whenever they raise, the store they leave is the
  store they were given: both tables, every row, every timestamp.
\<close>

theorem not_found_leaves_store:
  "(fst (update_note isoformat note_id note_update current_user now d) = Inl e \<longrightarrow>
      e = HTTPException 404 ''Note not found'' \<and>
      \<not> (\<exists>n \<in> set (db_notes d). Note_id n = note_id \<and> Note_owner_id n = Some (User_id current_user)) \<and>
      snd (update_note isoformat note_id note_update current_user now d) = d) \<and>
   (fst (delete_note note_id current_user d) = Inl e \<longrightarrow>
      e = HTTPException 404 ''Note not found'' \<and>
      \<not> (\<exists>n \<in> set (db_notes d). Note_id n = note_id \<and> Note_owner_id n = Some (User_id current_user)) \<and>
      snd (delete_note note_id current_user d) = d) \<and>
   (\<not> (\<exists>n \<in> set (db_notes d). Note_id n = note_id \<and> Note_owner_id n = Some (User_id current_user)) \<longrightarrow>
      update_note isoformat note_id note_update current_user now d =
        (Inl (HTTPException 404 ''Note not found''), d) \<and>
      delete_note note_id current_user d = (Inl (HTTPException 404 ''Note not found''), d))"
proof (cases "find (\<lambda>n. Note_id n = note_id \<and> Note_owner_id n = Some (User_id current_user))
                (db_notes d)")
  case None
  then have "\<not> (\<exists>n \<in> set (db_notes d). Note_id n = note_id \<and> Note_owner_id n = Some (User_id current_user))"
    by (simp add: find_None_conv)
  then show ?thesis
    by (simp add: update_note_missing [OF None] delete_note_missing [OF None])
next
  case (Some db_note)
  from find_SomeD [OF Some]
  have ex: "\<exists>n \<in> set (db_notes d). Note_id n = note_id \<and> Note_owner_id n = Some (User_id current_user)"
    by blast
  obtain r where "fst (update_note isoformat note_id note_update current_user now d) = Inr r"
    using update_note_found_Inr [OF Some] by blast
  then show ?thesis
    using ex by (simp add: delete_note_found [OF Some])
qed

theorem not_found_leaves_store_witness:
  "fst (update_note (\<lambda>t. ''T'') 7
     \<lparr>NoteUpdate_title = Some ''x'', NoteUpdate_content = Some ''y'',
      NoteUpdate_is_public = Some True\<rparr> alice 500 example_db) =
     Inl (HTTPException 404 ''Note not found'') \<and>
   snd (update_note (\<lambda>t. ''T'') 7
     \<lparr>NoteUpdate_title = Some ''x'', NoteUpdate_content = Some ''y'',
      NoteUpdate_is_public = Some True\<rparr> alice 500 example_db) = example_db \<and>
   fst (delete_note 1 bob example_db) = Inl (HTTPException 404 ''Note not found'') \<and>
   snd (delete_note 1 bob example_db) = example_db"
proof -
  let ?u = "\<lparr>NoteUpdate_title = Some ''x'', NoteUpdate_content = Some ''y'',
      NoteUpdate_is_public = Some True\<rparr>"
  have up: "fst (update_note (\<lambda>t. ''T'') 7 ?u alice 500 example_db) =
              Inl (HTTPException 404 ''Note not found'')"
    by (simp add: update_note_def example_db_def grocery_def alice_def)
  have del: "fst (delete_note 1 bob example_db) = Inl (HTTPException 404 ''Note not found'')"
    by (simp add: delete_note_def example_db_def grocery_def bob_def)
  have "snd (update_note (\<lambda>t. ''T'') 7 ?u alice 500 example_db) = example_db"
    using not_found_leaves_store
      [of "\<lambda>t. ''T''" 7 ?u alice 500 example_db "HTTPException 404 ''Note not found''"] up
    by blast
  moreover have "snd (delete_note 1 bob example_db) = example_db"
    using not_found_leaves_store
      [of _ 1 _ bob _ example_db "HTTPException 404 ''Note not found''"] del
    by blast
  ultimately show ?thesis
    using up del by simp
qed

section \<open>Claims about the public share read\<close>

text \<open>
  C2. For every share id \<open>s\<close>, \<open>get_shared_note\<close> returns a result exactly when
  some stored note has share id \<open>s\<close> and is public, and raises the 404
  \<open>Note not found or not public\<close> otherwise, leaving the store alone. When the
  store satisfies its constraints, the result is the title, the content and the
  rendered creation time of the one public note with that share id. After the owner
  of a note with share id \<open>s\<close> updates it with \<open>is_public = false\<close>, the read of
  \<open>s\<close> raises the 404.
\<close>

theorem shared_note_iff_public:
  "((\<exists>n\<in>set (db_notes d). Note_share_id n = Some s \<and> Note_is_public n) \<longleftrightarrow>
      (\<exists>r. fst (get_shared_note isoformat s d) = Inr r)) \<and>
   (\<not> (\<exists>n\<in>set (db_notes d). Note_share_id n = Some s \<and> Note_is_public n) \<longrightarrow>
      get_shared_note isoformat s d =
        (Inl (HTTPException 404 ''Note not found or not public''), d)) \<and>
   (db_ok d \<and> n \<in> set (db_notes d) \<and> Note_share_id n = Some s \<and> Note_is_public n \<longrightarrow>
      get_shared_note isoformat s d =
        (Inr \<lparr>SharedNote_title = Note_title n, SharedNote_content = Note_content n,
              SharedNote_created_at = isoformat (Note_created_at n)\<rparr>, d)) \<and>
   (db_ok d \<and> n \<in> set (db_notes d) \<and> Note_share_id n = Some s \<and>
    Note_owner_id n = Some (User_id current_user) \<and>
    NoteUpdate_is_public note_update = Some False \<longrightarrow>
      fst (get_shared_note isoformat s
             (snd (update_note isoformat (Note_id n) note_update current_user now d))) =
        Inl (HTTPException 404 ''Note not found or not public''))"
proof (intro conjI impI)
  show "(\<exists>n\<in>set (db_notes d). Note_share_id n = Some s \<and> Note_is_public n) \<longleftrightarrow>
      (\<exists>r. fst (get_shared_note isoformat s d) = Inr r)"
  proof (cases "find (\<lambda>n. Note_share_id n = Some s \<and> Note_is_public n = True) (db_notes d)")
    case None
    then show ?thesis
      by (simp add: get_shared_note_missing [OF None] find_None_conv)
  next
    case (Some m)
    from find_SomeD [OF Some] show ?thesis
      by (auto simp: get_shared_note_found [OF Some])
  qed
next
  assume "\<not> (\<exists>n\<in>set (db_notes d). Note_share_id n = Some s \<and> Note_is_public n)"
  then have "find (\<lambda>n. Note_share_id n = Some s \<and> Note_is_public n = True) (db_notes d) = None"
    by (simp add: find_None_conv)
  then show "get_shared_note isoformat s d =
        (Inl (HTTPException 404 ''Note not found or not public''), d)"
    by (rule get_shared_note_missing)
next
  assume "db_ok d \<and> n \<in> set (db_notes d) \<and> Note_share_id n = Some s \<and> Note_is_public n"
  then show "get_shared_note isoformat s d =
        (Inr \<lparr>SharedNote_title = Note_title n, SharedNote_content = Note_content n,
              SharedNote_created_at = isoformat (Note_created_at n)\<rparr>, d)"
    by (simp add: get_shared_note_public)
next
  assume a: "db_ok d \<and> n \<in> set (db_notes d) \<and> Note_share_id n = Some s \<and>
    Note_owner_id n = Some (User_id current_user) \<and>
    NoteUpdate_is_public note_update = Some False"
  let ?d' = "snd (update_note isoformat (Note_id n) note_update current_user now d)"
  from a have ok: "db_ok d" and n: "n \<in> set (db_notes d)" and sh: "Note_share_id n = Some s"
    and own: "Note_owner_id n = Some (User_id current_user)"
    and off: "NoteUpdate_is_public note_update = Some False"
    by simp_all
  from update_note_owned [OF ok n own, of isoformat note_update now]
  obtain n' where store: "?d' = d\<lparr>db_notes := map (\<lambda>r. if r = n then n' else r) (db_notes d)\<rparr>"
    and priv: "\<not> Note_is_public n'"
    using off by auto
  have "\<not> (Note_share_id m = Some s \<and> Note_is_public m)" if "m \<in> set (db_notes ?d')" for m
  proof
    assume m: "Note_share_id m = Some s \<and> Note_is_public m"
    from that obtain r where r: "r \<in> set (db_notes d)" and mr: "m = (if r = n then n' else r)"
      unfolding store by auto
    show False
    proof (cases "r = n")
      case True
      then show False using mr m priv by simp
    next
      case False
      then have "Note_share_id r = Some s" using mr m by simp
      then have "r = n"
        using share_ids_unique [of d n r s] ok n r sh by (simp add: db_ok_def)
      then show False using False by simp
    qed
  qed
  then have "find (\<lambda>n. Note_share_id n = Some s \<and> Note_is_public n = True) (db_notes ?d') = None"
    by (simp add: find_None_conv)
  then show "fst (get_shared_note isoformat s ?d') =
        Inl (HTTPException 404 ''Note not found or not public'')"
    by (simp add: get_shared_note_missing)
qed

theorem shared_note_iff_public_witness:
  "get_shared_note (\<lambda>t. ''T'') ''aaaaaaaaaa'' shared_db =
     (Inr \<lparr>SharedNote_title = ''Grocery'', SharedNote_content = ''milk'',
           SharedNote_created_at = ''T''\<rparr>, shared_db) \<and>
   get_shared_note (\<lambda>t. ''T'') ''aaaaaaaaaa'' example_db =
     (Inl (HTTPException 404 ''Note not found or not public''), example_db) \<and>
   fst (get_shared_note (\<lambda>t. ''T'') ''aaaaaaaaaa''
         (snd (update_note (\<lambda>t. ''T'') 1
                 \<lparr>NoteUpdate_title = None, NoteUpdate_content = None,
                  NoteUpdate_is_public = Some False\<rparr> alice 104 shared_db))) =
     Inl (HTTPException 404 ''Note not found or not public'')"
proof -
  let ?off = "\<lparr>NoteUpdate_title = None, NoteUpdate_content = None,
                  NoteUpdate_is_public = Some False\<rparr>"
  have n: "grocery_public \<in> set (db_notes shared_db)"
    by (simp add: shared_db_def)
  have f: "Note_share_id grocery_public = Some ''aaaaaaaaaa''" "Note_is_public grocery_public"
    "Note_owner_id grocery_public = Some (User_id alice)" "Note_id grocery_public = 1"
    "Note_title grocery_public = ''Grocery''" "Note_content grocery_public = ''milk''"
    by (simp_all add: grocery_public_def grocery_def alice_def)
  have off: "NoteUpdate_is_public ?off = Some False"
    by simp
  have priv: "\<not> (\<exists>n\<in>set (db_notes example_db).
                    Note_share_id n = Some ''aaaaaaaaaa'' \<and> Note_is_public n)"
    by (simp add: example_db_def grocery_def)
  note here = shared_note_iff_public
    [of shared_db "''aaaaaaaaaa''" "\<lambda>t. ''T''" grocery_public alice ?off 104]
  note there = shared_note_iff_public [of example_db "''aaaaaaaaaa''" "\<lambda>t. ''T''"]
  have "get_shared_note (\<lambda>t. ''T'') ''aaaaaaaaaa'' shared_db =
     (Inr \<lparr>SharedNote_title = Note_title grocery_public,
           SharedNote_content = Note_content grocery_public,
           SharedNote_created_at = ''T''\<rparr>, shared_db)"
    using here shared_db_ok n f(1,2) by blast
  moreover have "get_shared_note (\<lambda>t. ''T'') ''aaaaaaaaaa'' example_db =
     (Inl (HTTPException 404 ''Note not found or not public''), example_db)"
    using there priv by blast
  moreover have "fst (get_shared_note (\<lambda>t. ''T'') ''aaaaaaaaaa''
         (snd (update_note (\<lambda>t. ''T'') (Note_id grocery_public) ?off alice 104 shared_db))) =
     Inl (HTTPException 404 ''Note not found or not public'')"
    using here shared_db_ok n f(1,3) off by blast
  ultimately show ?thesis
    by (simp add: f)
qed

section \<open>Claims about registration\<close>

text \<open>
  C3. When some registered user has the username or the email of the request,
  \<open>register\<close> raises the 400 \<open>Username or email already registered\<close> and leaves
  the store as it was. Otherwise it succeeds: exactly one row is appended to the
  users, with a new key, the username and email of the request, and as
  \<open>hashed_password\<close> the value \<open>get_password_hash\<close> returned for the password.
  The password reaches the store through that value only: two requests that agree
  on username, email and the hash of the password have the same outcome.
\<close>

theorem register_duplicate_or_fresh:
  "((\<exists>u\<in>set (db_users d). User_username u = UserCreate_username user \<or>
                            User_email u = UserCreate_email user) \<longrightarrow>
      register get_password_hash user now d =
        (Inl (HTTPException 400 ''Username or email already registered''), d)) \<and>
   (\<not> (\<exists>u\<in>set (db_users d). User_username u = UserCreate_username user \<or>
                              User_email u = UserCreate_email user) \<longrightarrow>
      (\<exists>row. register get_password_hash user now d =
                (Inr ''User created successfully'', d\<lparr>db_users := db_users d @ [row]\<rparr>) \<and>
             User_id row \<notin> set (map User_id (db_users d)) \<and>
             User_username row = UserCreate_username user \<and>
             User_email row = UserCreate_email user \<and>
             User_hashed_password row = get_password_hash (UserCreate_password user) \<and>
             User_created_at row = now)) \<and>
   (UserCreate_username user' = UserCreate_username user \<and>
    UserCreate_email user' = UserCreate_email user \<and>
    get_password_hash (UserCreate_password user') = get_password_hash (UserCreate_password user) \<longrightarrow>
      register get_password_hash user' now d = register get_password_hash user now d)"
proof (intro conjI impI)
  assume "\<exists>u\<in>set (db_users d). User_username u = UserCreate_username user \<or>
                            User_email u = UserCreate_email user"
  then show "register get_password_hash user now d =
        (Inl (HTTPException 400 ''Username or email already registered''), d)"
    by (rule register_taken)
next
  assume fresh: "\<not> (\<exists>u\<in>set (db_users d). User_username u = UserCreate_username user \<or>
                              User_email u = UserCreate_email user)"
  let ?row = "\<lparr>User_id = fresh_id (map User_id (db_users d)),
                    User_username = UserCreate_username user,
                    User_email = UserCreate_email user,
                    User_hashed_password = get_password_hash (UserCreate_password user),
                    User_created_at = now\<rparr>"
  have "User_id ?row \<notin> set (map User_id (db_users d))"
    using fresh_id_fresh [of "map User_id (db_users d)"] by simp
  then show "\<exists>row. register get_password_hash user now d =
                (Inr ''User created successfully'', d\<lparr>db_users := db_users d @ [row]\<rparr>) \<and>
             User_id row \<notin> set (map User_id (db_users d)) \<and>
             User_username row = UserCreate_username user \<and>
             User_email row = UserCreate_email user \<and>
             User_hashed_password row = get_password_hash (UserCreate_password user) \<and>
             User_created_at row = now"
    using register_fresh [OF fresh, of get_password_hash now]
    by (intro exI [of _ ?row]) simp
next
  assume same: "UserCreate_username user' = UserCreate_username user \<and>
    UserCreate_email user' = UserCreate_email user \<and>
    get_password_hash (UserCreate_password user') = get_password_hash (UserCreate_password user)"
  show "register get_password_hash user' now d = register get_password_hash user now d"
  proof (cases "\<exists>u\<in>set (db_users d). User_username u = UserCreate_username user \<or>
                              User_email u = UserCreate_email user")
    case True
    then have "\<exists>u\<in>set (db_users d). User_username u = UserCreate_username user' \<or>
                              User_email u = UserCreate_email user'"
      using same by simp
    then show ?thesis
      using True by (simp add: register_taken)
  next
    case False
    then have "\<not> (\<exists>u\<in>set (db_users d). User_username u = UserCreate_username user' \<or>
                              User_email u = UserCreate_email user')"
      using same by simp
    then show ?thesis
      using False same by (simp add: register_fresh)
  qed
qed

theorem register_duplicate_or_fresh_witness:
  "register (\<lambda>p. ''hash:'' @ take 4 p)
     \<lparr>UserCreate_username = ''alice'', UserCreate_email = ''other@x.com'',
      UserCreate_password = ''secret''\<rparr> 300 example_db =
     (Inl (HTTPException 400 ''Username or email already registered''), example_db) \<and>
   register (\<lambda>p. ''hash:'' @ take 4 p)
     \<lparr>UserCreate_username = ''robert'', UserCreate_email = ''b@x.com'',
      UserCreate_password = ''secret''\<rparr> 300 example_db =
     (Inl (HTTPException 400 ''Username or email already registered''), example_db) \<and>
   (\<exists>row. register (\<lambda>p. ''hash:'' @ take 4 p) carol_request 300 example_db =
            (Inr ''User created successfully'',
             example_db\<lparr>db_users := db_users example_db @ [row]\<rparr>) \<and>
          User_username row = ''carol'' \<and> User_hashed_password row = ''hash:pw12'') \<and>
   register (\<lambda>p. ''hash:'' @ take 4 p)
     (carol_request\<lparr>UserCreate_password := ''pw12''\<rparr>) 300 example_db =
   register (\<lambda>p. ''hash:'' @ take 4 p) carol_request 300 example_db"
proof -
  let ?h = "\<lambda>p. ''hash:'' @ take 4 p"
  let ?a = "\<lparr>UserCreate_username = ''alice'', UserCreate_email = ''other@x.com'',
      UserCreate_password = ''secret''\<rparr>"
  let ?b = "\<lparr>UserCreate_username = ''robert'', UserCreate_email = ''b@x.com'',
      UserCreate_password = ''secret''\<rparr>"
  have dup_a: "\<exists>u\<in>set (db_users example_db).
      User_username u = UserCreate_username ?a \<or> User_email u = UserCreate_email ?a"
    by (simp add: example_db_def alice_def)
  have dup_b: "\<exists>u\<in>set (db_users example_db).
      User_username u = UserCreate_username ?b \<or> User_email u = UserCreate_email ?b"
    by (simp add: example_db_def bob_def)
  have fresh: "\<not> (\<exists>u\<in>set (db_users example_db).
      User_username u = UserCreate_username carol_request \<or>
      User_email u = UserCreate_email carol_request)"
    by (simp add: example_db_def alice_def bob_def carol_request_def)
  have same: "UserCreate_username (carol_request\<lparr>UserCreate_password := ''pw12''\<rparr>) =
        UserCreate_username carol_request \<and>
      UserCreate_email (carol_request\<lparr>UserCreate_password := ''pw12''\<rparr>) =
        UserCreate_email carol_request \<and>
      ?h (UserCreate_password (carol_request\<lparr>UserCreate_password := ''pw12''\<rparr>)) =
        ?h (UserCreate_password carol_request)"
    by (simp add: carol_request_def)
  have "register ?h ?a 300 example_db =
      (Inl (HTTPException 400 ''Username or email already registered''), example_db)"
    using register_duplicate_or_fresh [of example_db ?a ?h 300] dup_a by blast
  moreover have "register ?h ?b 300 example_db =
      (Inl (HTTPException 400 ''Username or email already registered''), example_db)"
    using register_duplicate_or_fresh [of example_db ?b ?h 300] dup_b by blast
  moreover have "\<exists>row. register ?h carol_request 300 example_db =
            (Inr ''User created successfully'',
             example_db\<lparr>db_users := db_users example_db @ [row]\<rparr>) \<and>
          User_username row = UserCreate_username carol_request \<and>
          User_hashed_password row = ?h (UserCreate_password carol_request)"
    using register_duplicate_or_fresh [of example_db carol_request ?h 300] fresh by blast
  moreover have "register ?h (carol_request\<lparr>UserCreate_password := ''pw12''\<rparr>) 300 example_db =
      register ?h carol_request 300 example_db"
    using register_duplicate_or_fresh
      [of example_db carol_request ?h 300 "carol_request\<lparr>UserCreate_password := ''pw12''\<rparr>"]
      same by blast
  ultimately show ?thesis
    by (simp add: carol_request_def)
qed

text \<open>
  C4, as the code has it. When the query of \<open>register\<close> finds no duplicate in the
  store it reads, and the store at commit time holds a user with the username or
  the email of the request, the commit is rejected and the \<open>IntegrityError\<close>
  leaves the handler as it is: \<open>register\<close> has no handler for it, so it is not
  turned into the 400 of the pre-check. Nothing is stored. Within one request that
  no other commit interleaves, \<open>register\<close> never ends in \<open>IntegrityError\<close>.
\<close>

theorem register_interleaved_duplicate:
  "(register_query user d = None \<and>
    (\<exists>u\<in>set (db_users d'). User_username u = UserCreate_username user \<or>
                             User_email u = UserCreate_email user) \<longrightarrow>
      register_interleaved get_password_hash user now d d' = (Inl IntegrityError, d')) \<and>
   fst (register get_password_hash user now d) \<noteq> Inl IntegrityError"
proof (intro conjI impI)
  assume a: "register_query user d = None \<and>
    (\<exists>u\<in>set (db_users d'). User_username u = UserCreate_username user \<or>
                             User_email u = UserCreate_email user)"
  then show "register_interleaved get_password_hash user now d d' = (Inl IntegrityError, d')"
    by (simp add: register_interleaved_def register_create_def add_user_taken)
next
  show "fst (register get_password_hash user now d) \<noteq> Inl IntegrityError"
  proof (cases "\<exists>u\<in>set (db_users d). User_username u = UserCreate_username user \<or>
                              User_email u = UserCreate_email user")
    case True
    then show ?thesis by (simp add: register_taken)
  next
    case False
    then show ?thesis by (simp add: register_fresh)
  qed
qed

theorem register_interleaved_duplicate_witness:
  "register_query carol_request example_db = None \<and>
   (\<exists>u\<in>set (db_users raced_db). User_username u = UserCreate_username carol_request \<or>
                                  User_email u = UserCreate_email carol_request) \<and>
   register_interleaved (\<lambda>p. ''hash:'' @ take 4 p) carol_request 300 example_db raced_db =
     (Inl IntegrityError, raced_db)"
proof -
  have q: "register_query carol_request example_db = None"
    by (simp add: register_query_def example_db_def alice_def bob_def carol_request_def)
  have r: "\<exists>u\<in>set (db_users raced_db). User_username u = UserCreate_username carol_request \<or>
                                  User_email u = UserCreate_email carol_request"
    by (simp add: raced_db_def carol_def carol_request_def)
  show ?thesis
    using register_interleaved_duplicate
      [of carol_request example_db raced_db "\<lambda>p. ''hash:'' @ take 4 p" 300] q r
    by blast
qed

text \<open>
  The claim as the specification states it fails: \<open>carol\<close> is not in the store the
  query reads, another request commits the username before the insert, and the
  handler ends in the \<open>IntegrityError\<close>, not in the 400 of the pre-check.
\<close>

theorem register_interleaved_not_conflict:
  "register_query carol_request example_db = None \<and>
   add_user ''carol'' ''c@x.com'' ''hash:pw12'' 300 raced_db = Inl IntegrityError \<and>
   register_interleaved (\<lambda>p. ''hash:'' @ take 4 p) carol_request 300 example_db raced_db =
     (Inl IntegrityError, raced_db) \<and>
   fst (register_interleaved (\<lambda>p. ''hash:'' @ take 4 p) carol_request 300 example_db raced_db) \<noteq>
     Inl (HTTPException 400 ''Username or email already registered'')"
  by (simp add: register_interleaved_def register_query_def register_create_def add_user_def
      example_db_def raced_db_def alice_def bob_def carol_def carol_request_def)

section \<open>Claims about note creation\<close>

text \<open>
  C7, as the code has it. When the share id that \<open>create_note\<close> generates is not
  the share id of a stored note, the handler returns a note object with the title
  and content of the request, \<open>is_public\<close> false and the generated share id; the
  row it appends to the notes has a new key, the same fields and the caller as owner.
  When the generated share id is already stored, the uniqueness constraint rejects
  the insert: the handler ends in the \<open>IntegrityError\<close> and the store is as before.
\<close>

theorem create_note_result:
  "(generate_share_id rnd \<notin> set (share_ids d) \<longrightarrow>
      (\<exists>n. create_note isoformat rnd note_create current_user now d =
              (Inr (note_response isoformat n), d\<lparr>db_notes := db_notes d @ [n]\<rparr>) \<and>
           NoteResponse_title (note_response isoformat n) = NoteCreate_title note_create \<and>
           NoteResponse_content (note_response isoformat n) = NoteCreate_content note_create \<and>
           NoteResponse_is_public (note_response isoformat n) = False \<and>
           NoteResponse_share_id (note_response isoformat n) = Some (generate_share_id rnd) \<and>
           Note_title n = NoteCreate_title note_create \<and>
           Note_content n = NoteCreate_content note_create \<and>
           Note_is_public n = False \<and>
           Note_share_id n = Some (generate_share_id rnd) \<and>
           Note_owner_id n = Some (User_id current_user) \<and>
           Note_id n \<notin> set (map Note_id (db_notes d)))) \<and>
   (generate_share_id rnd \<in> set (share_ids d) \<longrightarrow>
      create_note isoformat rnd note_create current_user now d = (Inl IntegrityError, d))"
proof (intro conjI impI)
  assume fresh: "generate_share_id rnd \<notin> set (share_ids d)"
  let ?n = "\<lparr>Note_id = fresh_id (map Note_id (db_notes d)),
                   Note_title = NoteCreate_title note_create,
                   Note_content = NoteCreate_content note_create,
                   Note_owner_id = Some (User_id current_user),
                   Note_is_public = False,
                   Note_share_id = Some (generate_share_id rnd),
                   Note_created_at = now,
                   Note_updated_at = now\<rparr>"
  have "Note_id ?n \<notin> set (map Note_id (db_notes d))"
    using fresh_id_fresh [of "map Note_id (db_notes d)"] by simp
  then show "\<exists>n. create_note isoformat rnd note_create current_user now d =
              (Inr (note_response isoformat n), d\<lparr>db_notes := db_notes d @ [n]\<rparr>) \<and>
           NoteResponse_title (note_response isoformat n) = NoteCreate_title note_create \<and>
           NoteResponse_content (note_response isoformat n) = NoteCreate_content note_create \<and>
           NoteResponse_is_public (note_response isoformat n) = False \<and>
           NoteResponse_share_id (note_response isoformat n) = Some (generate_share_id rnd) \<and>
           Note_title n = NoteCreate_title note_create \<and>
           Note_content n = NoteCreate_content note_create \<and>
           Note_is_public n = False \<and>
           Note_share_id n = Some (generate_share_id rnd) \<and>
           Note_owner_id n = Some (User_id current_user) \<and>
           Note_id n \<notin> set (map Note_id (db_notes d))"
    using create_note_fresh [OF fresh, of isoformat note_create current_user now]
    by (intro exI [of _ ?n]) (simp add: note_response_def)
next
  assume "generate_share_id rnd \<in> set (share_ids d)"
  then show "create_note isoformat rnd note_create current_user now d = (Inl IntegrityError, d)"
    by (rule create_note_taken)
qed

theorem create_note_result_witness:
  "(\<exists>n. create_note (\<lambda>t. ''T'') (\<lambda>i. 2)
           \<lparr>NoteCreate_title = ''Todo'', NoteCreate_content = ''call''\<rparr> bob 200 example_db =
           (Inr (note_response (\<lambda>t. ''T'') n),
            example_db\<lparr>db_notes := db_notes example_db @ [n]\<rparr>) \<and>
        Note_title n = ''Todo'' \<and> Note_content n = ''call'' \<and> Note_is_public n = False \<and>
        Note_share_id n = Some ''cccccccccc'' \<and> Note_owner_id n = Some 2) \<and>
   create_note (\<lambda>t. ''T'') (\<lambda>i. 0)
     \<lparr>NoteCreate_title = ''Todo'', NoteCreate_content = ''call''\<rparr> bob 200 example_db =
     (Inl IntegrityError, example_db)"
proof -
  let ?c = "\<lparr>NoteCreate_title = ''Todo'', NoteCreate_content = ''call''\<rparr>"
  have fresh: "generate_share_id (\<lambda>i. 2) \<notin> set (share_ids example_db)"
    by (simp add: generate_share_id_two example_db_share_ids)
  have taken: "generate_share_id (\<lambda>i. 0) \<in> set (share_ids example_db)"
    by (simp add: generate_share_id_zero example_db_share_ids)
  have "\<exists>n. create_note (\<lambda>t. ''T'') (\<lambda>i. 2) ?c bob 200 example_db =
           (Inr (note_response (\<lambda>t. ''T'') n),
            example_db\<lparr>db_notes := db_notes example_db @ [n]\<rparr>) \<and>
        Note_title n = NoteCreate_title ?c \<and> Note_content n = NoteCreate_content ?c \<and>
        Note_is_public n = False \<and>
        Note_share_id n = Some (generate_share_id (\<lambda>i. 2)) \<and>
        Note_owner_id n = Some (User_id bob)"
    using create_note_result [of "\<lambda>i. 2" example_db "\<lambda>t. ''T''" ?c bob 200] fresh
    by blast
  moreover have "create_note (\<lambda>t. ''T'') (\<lambda>i. 0) ?c bob 200 example_db =
     (Inl IntegrityError, example_db)"
    using create_note_result [of "\<lambda>i. 0" example_db "\<lambda>t. ''T''" ?c bob 200] taken
    by blast
  ultimately show ?thesis
    by (simp add: generate_share_id_two bob_def)
qed

text \<open>
  The claim as the specification states it fails: with a random source that draws
  index 0 ten times, \<open>bob\<close>'s request generates the share id of \<open>alice\<close>'s note
  and returns no note object.
\<close>

theorem create_note_collision:
  "create_note (\<lambda>t. ''T'') (\<lambda>i. 0)
     \<lparr>NoteCreate_title = ''Todo'', NoteCreate_content = ''call''\<rparr> bob 200 example_db =
     (Inl IntegrityError, example_db)"
  by (simp add: create_note_def add_note_def generate_share_id_zero example_db_def
      share_ids_def map_filter_simps grocery_def)

text \<open>
  C9. Whenever \<open>create_note\<close> returns, the one row it has appended carries the
  generated share id, of exactly 10 characters, and the id of the caller as owner,
  with \<open>is_public\<close> false; whenever it raises, no row was added. In every store the
  service can reach from the empty one, each note has a share id of exactly 10
  characters and an owner: no request leaves either column NULL.
\<close>

theorem created_note_share_id_owner:
  "(fst (create_note isoformat rnd note_create current_user now d) = Inr r \<longrightarrow>
      (\<exists>n. db_notes (snd (create_note isoformat rnd note_create current_user now d)) =
              db_notes d @ [n] \<and>
           r = note_response isoformat n \<and>
           Note_share_id n = Some (generate_share_id rnd) \<and>
           length (generate_share_id rnd) = 10 \<and>
           Note_owner_id n = Some (User_id current_user) \<and>
           \<not> Note_is_public n)) \<and>
   (fst (create_note isoformat rnd note_create current_user now d) = Inl e \<longrightarrow>
      snd (create_note isoformat rnd note_create current_user now d) = d) \<and>
   (reachable d' \<and> k \<in> set (db_notes d') \<longrightarrow>
      (\<exists>s. Note_share_id k = Some s \<and> length s = 10) \<and> (\<exists>uid. Note_owner_id k = Some uid))"
proof (intro conjI impI)
  assume r: "fst (create_note isoformat rnd note_create current_user now d) = Inr r"
  have fresh: "generate_share_id rnd \<notin> set (share_ids d)"
  proof
    assume "generate_share_id rnd \<in> set (share_ids d)"
    then show False using r by (simp add: create_note_taken)
  qed
  show "\<exists>n. db_notes (snd (create_note isoformat rnd note_create current_user now d)) =
              db_notes d @ [n] \<and>
           r = note_response isoformat n \<and>
           Note_share_id n = Some (generate_share_id rnd) \<and>
           length (generate_share_id rnd) = 10 \<and>
           Note_owner_id n = Some (User_id current_user) \<and>
           \<not> Note_is_public n"
    using r unfolding create_note_fresh [OF fresh]
    by (simp add: generate_share_id_length)
next
  assume e: "fst (create_note isoformat rnd note_create current_user now d) = Inl e"
  have "generate_share_id rnd \<in> set (share_ids d)"
  proof (rule ccontr)
    assume "generate_share_id rnd \<notin> set (share_ids d)"
    then show False using e by (simp add: create_note_fresh)
  qed
  then show "snd (create_note isoformat rnd note_create current_user now d) = d"
    by (simp add: create_note_taken)
next
  assume "reachable d' \<and> k \<in> set (db_notes d')"
  then show "\<exists>s. Note_share_id k = Some s \<and> length s = 10"
    using reachable_notes by blast
next
  assume "reachable d' \<and> k \<in> set (db_notes d')"
  then show "\<exists>uid. Note_owner_id k = Some uid"
    using reachable_notes by blast
qed

theorem created_note_share_id_owner_witness:
  "(\<exists>n. db_notes (snd (create_note (\<lambda>t. ''T'') (\<lambda>i. 2)
           \<lparr>NoteCreate_title = ''Todo'', NoteCreate_content = ''call''\<rparr> bob 200 example_db)) =
           db_notes example_db @ [n] \<and>
        Note_share_id n = Some ''cccccccccc'' \<and> Note_owner_id n = Some 2 \<and>
        \<not> Note_is_public n) \<and>
   snd (create_note (\<lambda>t. ''T'') (\<lambda>i. 0)
     \<lparr>NoteCreate_title = ''Todo'', NoteCreate_content = ''call''\<rparr> bob 200 example_db) =
     example_db \<and>
   reachable example_db \<and> grocery \<in> set (db_notes example_db) \<and>
   (\<exists>s. Note_share_id grocery = Some s \<and> length s = 10)"
proof -
  let ?c = "\<lparr>NoteCreate_title = ''Todo'', NoteCreate_content = ''call''\<rparr>"
  let ?r = "note_response (\<lambda>t. ''T'')
      \<lparr>Note_id = 2, Note_title = ''Todo'', Note_content = ''call'', Note_owner_id = Some 2,
       Note_is_public = False, Note_share_id = Some ''cccccccccc'',
       Note_created_at = 200, Note_updated_at = 200\<rparr>"
  have ok: "fst (create_note (\<lambda>t. ''T'') (\<lambda>i. 2) ?c bob 200 example_db) = Inr ?r"
    by (simp add: create_note_def add_note_def Let_def generate_share_id_two
        share_ids_def map_filter_simps fresh_id_def example_db_def grocery_def bob_def)
  have bad: "fst (create_note (\<lambda>t. ''T'') (\<lambda>i. 0) ?c bob 200 example_db) = Inl IntegrityError"
    by (simp add: create_note_def add_note_def generate_share_id_zero example_db_share_ids)
  have mem: "grocery \<in> set (db_notes example_db)"
    by (simp add: example_db_def)
  have "\<exists>n. db_notes (snd (create_note (\<lambda>t. ''T'') (\<lambda>i. 2) ?c bob 200 example_db)) =
           db_notes example_db @ [n] \<and>
        Note_share_id n = Some (generate_share_id (\<lambda>i. 2)) \<and>
        Note_owner_id n = Some (User_id bob) \<and> \<not> Note_is_public n"
    using created_note_share_id_owner [of "\<lambda>t. ''T''" "\<lambda>i. 2" ?c bob 200 example_db ?r] ok
    by blast
  moreover have "snd (create_note (\<lambda>t. ''T'') (\<lambda>i. 0) ?c bob 200 example_db) = example_db"
    using created_note_share_id_owner
      [of "\<lambda>t. ''T''" "\<lambda>i. 0" ?c bob 200 example_db _ IntegrityError] bad
    by blast
  moreover have "\<exists>s. Note_share_id grocery = Some s \<and> length s = 10"
    using created_note_share_id_owner [of _ _ _ _ _ _ _ _ example_db grocery]
      example_db_reachable mem
    by blast
  ultimately show ?thesis
    using example_db_reachable mem by (simp add: generate_share_id_two bob_def)
qed

section \<open>Claims about what an update touches\<close>

text \<open>
  C6, as the code has it. Let the store satisfy its constraints and \<open>n\<close> be a note
  of the caller. \<open>update_note\<close> on the id of \<open>n\<close> returns the updated note and
  replaces \<open>n\<close> by it, every other row staying as it was. In the updated note each
  of title, content and \<open>is_public\<close> has the value of the request where the request
  has one and the value of \<open>n\<close> where it has none; id, owner, share id and
  creation time are those of \<open>n\<close>; \<open>updated_at\<close> is the time of the request when
  one of the three fields has changed its value, and that of \<open>n\<close> when none has.
  For every request of every route, a note that is in the store after it and has the
  key of a note in the store before it has that note's share id, owner and creation
  time.
\<close>

theorem update_note_frame:
  "(db_ok d \<and> n \<in> set (db_notes d) \<and> Note_owner_id n = Some (User_id current_user) \<longrightarrow>
      (\<exists>n'. update_note isoformat (Note_id n) note_update current_user now d =
                  (Inr (note_response isoformat n'),
                   d\<lparr>db_notes := map (\<lambda>r. if r = n then n' else r) (db_notes d)\<rparr>) \<and>
               Note_title n' = (case NoteUpdate_title note_update of
                                  None \<Rightarrow> Note_title n | Some t \<Rightarrow> t) \<and>
               Note_content n' = (case NoteUpdate_content note_update of
                                    None \<Rightarrow> Note_content n | Some c \<Rightarrow> c) \<and>
               Note_is_public n' = (case NoteUpdate_is_public note_update of
                                      None \<Rightarrow> Note_is_public n | Some p \<Rightarrow> p) \<and>
               Note_id n' = Note_id n \<and> Note_owner_id n' = Note_owner_id n \<and>
               Note_share_id n' = Note_share_id n \<and> Note_created_at n' = Note_created_at n \<and>
               Note_updated_at n' =
                 (if Note_title n' = Note_title n \<and> Note_content n' = Note_content n \<and>
                     Note_is_public n' = Note_is_public n
                  then Note_updated_at n else now))) \<and>
   (db_ok d \<and> m \<in> set (db_notes (handle isoformat req d)) \<and> k \<in> set (db_notes d) \<and>
    Note_id m = Note_id k \<longrightarrow>
      Note_share_id m = Note_share_id k \<and> Note_owner_id m = Note_owner_id k \<and>
      Note_created_at m = Note_created_at k)"
proof -
  have "continues m k"
    if "db_ok d \<and> m \<in> set (db_notes (handle isoformat req d)) \<and> k \<in> set (db_notes d) \<and>
        Note_id m = Note_id k"
    using that handle_same_id [of d m isoformat req k] by blast
  then show ?thesis
    using update_note_owned [of d n current_user isoformat note_update now]
    unfolding continues_def by blast
qed

theorem update_note_frame_witness:
  "(\<exists>n'. update_note (\<lambda>t. ''T'') 1
            \<lparr>NoteUpdate_title = Some ''Groceries'', NoteUpdate_content = None,
             NoteUpdate_is_public = Some True\<rparr> alice 103 example_db =
            (Inr (note_response (\<lambda>t. ''T'') n'),
             example_db\<lparr>db_notes := map (\<lambda>r. if r = grocery then n' else r)
                                       (db_notes example_db)\<rparr>) \<and>
         Note_title n' = ''Groceries'' \<and> Note_content n' = ''milk'' \<and> Note_is_public n' \<and>
         Note_id n' = 1 \<and> Note_owner_id n' = Some 1 \<and>
         Note_share_id n' = Some ''aaaaaaaaaa'' \<and> Note_created_at n' = 102 \<and>
         Note_updated_at n' = 103) \<and>
   grocery_public \<in> set (db_notes (handle (\<lambda>t. ''T'')
      (UpdateNote 1 \<lparr>NoteUpdate_title = None, NoteUpdate_content = None,
                     NoteUpdate_is_public = Some True\<rparr> alice 103) example_db)) \<and>
   Note_share_id grocery_public = Note_share_id grocery \<and>
   Note_owner_id grocery_public = Note_owner_id grocery \<and>
   Note_created_at grocery_public = Note_created_at grocery"
proof -
  let ?u = "\<lparr>NoteUpdate_title = Some ''Groceries'', NoteUpdate_content = None,
             NoteUpdate_is_public = Some True\<rparr>"
  let ?req = "UpdateNote 1 \<lparr>NoteUpdate_title = None, NoteUpdate_content = None,
                     NoteUpdate_is_public = Some True\<rparr> alice 103"
  have mem: "grocery \<in> set (db_notes example_db)"
    by (simp add: example_db_def)
  have own: "Note_owner_id grocery = Some (User_id alice)"
    by (simp add: grocery_def alice_def)
  have after: "grocery_public \<in> set (db_notes (handle (\<lambda>t. ''T'') ?req example_db))"
    by (simp add: update_note_def update_row_def Let_def example_db_def grocery_public_def
        grocery_def alice_def)
  have id: "Note_id grocery_public = Note_id grocery"
    by (simp add: grocery_public_def)
  have "\<exists>n'. update_note (\<lambda>t. ''T'') (Note_id grocery) ?u alice 103 example_db =
            (Inr (note_response (\<lambda>t. ''T'') n'),
             example_db\<lparr>db_notes := map (\<lambda>r. if r = grocery then n' else r)
                                       (db_notes example_db)\<rparr>) \<and>
         Note_title n' = (case NoteUpdate_title ?u of None \<Rightarrow> Note_title grocery | Some t \<Rightarrow> t) \<and>
         Note_content n' = (case NoteUpdate_content ?u of
                              None \<Rightarrow> Note_content grocery | Some c \<Rightarrow> c) \<and>
         Note_is_public n' = (case NoteUpdate_is_public ?u of
                                None \<Rightarrow> Note_is_public grocery | Some p \<Rightarrow> p) \<and>
         Note_id n' = Note_id grocery \<and> Note_owner_id n' = Note_owner_id grocery \<and>
         Note_share_id n' = Note_share_id grocery \<and>
         Note_created_at n' = Note_created_at grocery \<and>
         Note_updated_at n' =
           (if Note_title n' = Note_title grocery \<and> Note_content n' = Note_content grocery \<and>
               Note_is_public n' = Note_is_public grocery
            then Note_updated_at grocery else 103)"
    using update_note_frame [of example_db grocery alice "\<lambda>t. ''T''" ?u 103]
      example_db_ok mem own
    by blast
  then have first: "\<exists>n'. update_note (\<lambda>t. ''T'') 1 ?u alice 103 example_db =
            (Inr (note_response (\<lambda>t. ''T'') n'),
             example_db\<lparr>db_notes := map (\<lambda>r. if r = grocery then n' else r)
                                       (db_notes example_db)\<rparr>) \<and>
         Note_title n' = ''Groceries'' \<and> Note_content n' = ''milk'' \<and> Note_is_public n' \<and>
         Note_id n' = 1 \<and> Note_owner_id n' = Some 1 \<and>
         Note_share_id n' = Some ''aaaaaaaaaa'' \<and> Note_created_at n' = 102 \<and>
         Note_updated_at n' = 103"
    by (auto simp: grocery_def)
  have "Note_share_id grocery_public = Note_share_id grocery \<and>
      Note_owner_id grocery_public = Note_owner_id grocery \<and>
      Note_created_at grocery_public = Note_created_at grocery"
    using update_note_frame
      [of example_db _ _ "\<lambda>t. ''T''" _ _ grocery_public ?req grocery]
      example_db_ok after mem id
    by blast
  then show ?thesis
    using first after by blast
qed

text \<open>
  The claim as the specification states it fails at \<open>updated_at\<close>: an update
  with an empty body succeeds, writes nothing, and the note keeps the modification
  time 102 at the request time 500.
\<close>

theorem update_note_empty_keeps_updated_at:
  "update_note (\<lambda>t. ''T'') 1
     \<lparr>NoteUpdate_title = None, NoteUpdate_content = None, NoteUpdate_is_public = None\<rparr>
     alice 500 example_db =
     (Inr (note_response (\<lambda>t. ''T'') grocery), example_db) \<and>
   map Note_updated_at (db_notes example_db) = [102]"
  by (simp add: update_note_def update_row_def Let_def example_db_def grocery_def alice_def)

end
